theory Spec2Isabelle
  imports Main
begin

section \<open>JavaScript strings and numbers\<close>

text \<open>
  The class \<open>Program\<close> of \<open>src/core/program.ts\<close> is embedded function by function.
  Strings are lists of code units below 256, which covers every type token and every
  GLSL identifier. An exception is a value of \<open>js_error\<close>: \<open>Error m\<close> is
  \<open>throw new Error(m)\<close>, \<open>TypeError\<close> is the exception the engine raises when a
  property of \<open>undefined\<close> is read or a value that is no function is called.
\<close>

datatype js_error = Error string | TypeError

text \<open>\<open>s.split(c)\<close> for a separator of one character: never the empty list.\<close>

fun js_split :: "char \<Rightarrow> string \<Rightarrow> string list" where
  "js_split c [] = [[]]"
| "js_split c (x # xs) =
     (if x = c then [] # js_split c xs
      else (case js_split c xs of [] \<Rightarrow> [[x]] | s # ss \<Rightarrow> (x # s) # ss))"

fun js_startsWith :: "string \<Rightarrow> string \<Rightarrow> bool" where
  "js_startsWith s [] = True"
| "js_startsWith [] (p # ps) = False"
| "js_startsWith (x # xs) (p # ps) = (x = p \<and> js_startsWith xs ps)"

text \<open>\<open>s.indexOf(pat)\<close>: the position of the first occurrence, or \<open>-1\<close>.\<close>

fun js_indexOf_from :: "nat \<Rightarrow> string \<Rightarrow> string \<Rightarrow> int" where
  "js_indexOf_from i [] pat = (if pat = [] then int i else - 1)"
| "js_indexOf_from i (x # xs) pat =
     (if js_startsWith (x # xs) pat then int i else js_indexOf_from (Suc i) xs pat)"

definition js_indexOf :: "string \<Rightarrow> string \<Rightarrow> int" where
  "js_indexOf s pat = js_indexOf_from 0 s pat"

text \<open>
  \<open>s.replace(pat, rep)\<close> with a string pattern: only the first occurrence is replaced.
  The replacement used by the program is the empty string, which holds no \<open>$\<close> pattern.
\<close>

fun js_replace :: "string \<Rightarrow> string \<Rightarrow> string \<Rightarrow> string" where
  "js_replace [] pat rep = (if pat = [] then rep else [])"
| "js_replace (x # xs) pat rep =
     (if js_startsWith (x # xs) pat then rep @ drop (length pat) (x # xs)
      else x # js_replace xs pat rep)"

text \<open>\<open>s[i]\<close>: \<open>None\<close> is \<open>undefined\<close>.\<close>

definition js_charAt :: "string \<Rightarrow> nat \<Rightarrow> char option" where
  "js_charAt s i = (if i < length s then Some (s ! i) else None)"

text \<open>
  \<open>Number(c)\<close> for \<open>c\<close> a string of one character or \<open>undefined\<close>; \<open>None\<close> is \<open>NaN\<close>.
  A digit is its value, white space trims to the empty string and so is 0, everything
  else (and \<open>undefined\<close>) is \<open>NaN\<close>.
\<close>

definition js_whitespace :: "nat list" where
  "js_whitespace = [9, 10, 11, 12, 13, 32, 160]"

definition js_Number :: "char option \<Rightarrow> nat option" where
  "js_Number c =
     (case c of
        None \<Rightarrow> None
      | Some ch \<Rightarrow>
          (let n = (of_char ch :: nat) in
           if 48 \<le> n \<and> n \<le> 57 then Some (n - 48)
           else if n \<in> set js_whitespace then Some 0
           else None))"

text \<open>The decimal string of a number that is a natural number or \<open>NaN\<close>.\<close>

fun js_nat_string :: "nat \<Rightarrow> string" where
  "js_nat_string n =
     (if n < 10 then [''0123456789'' ! n]
      else js_nat_string (n div 10) @ [''0123456789'' ! (n mod 10)])"

definition js_number_string :: "nat option \<Rightarrow> string" where
  "js_number_string v = (case v of None \<Rightarrow> ''NaN'' | Some n \<Rightarrow> js_nat_string n)"

text \<open>A template literal prints \<open>undefined\<close> by name.\<close>

definition js_template :: "nat option \<Rightarrow> string" where
  "js_template v = (case v of None \<Rightarrow> ''undefined'' | Some n \<Rightarrow> js_nat_string n)"

section \<open>The type parser\<close>

record parsed_type =
  baseType :: string
  vecType :: string
  baseVecType :: string
  vecSize :: "nat option"

definition parseType :: "string \<Rightarrow> parsed_type" where
  "parseType ty =
     \<lparr> baseType = hd (js_split CHR ''_'' ty),
       vecType = (if length (js_split CHR ''_'' ty) > 1 then js_split CHR ''_'' ty ! 1
                  else ''VEC1''),
       baseVecType = take 3 (if length (js_split CHR ''_'' ty) > 1 then js_split CHR ''_'' ty ! 1
                             else ''VEC1''),
       vecSize = js_Number (js_charAt (if length (js_split CHR ''_'' ty) > 1
                                       then js_split CHR ''_'' ty ! 1 else ''VEC1'') 3) \<rparr>"

declare js_nat_string.simps [simp del]

section \<open>The graphics context\<close>

text \<open>
  \<open>GL.gl\<close> is the host's rendering context, reached through the module \<open>./gl\<close>. The
  program reads four kinds of property of it by a computed name (\<open>gl[types[i]]\<close>,
  \<open>gl[uniformMethodName]\<close>, \<open>gl[baseType]\<close> and the \<open>TEXTURE\<close> constants), so the
  property table is a parameter of the model: a property is absent, a number, or a
  function. What the driver answers when it compiles, links and reflects is a parameter
  too. Commands are recorded in the order they are issued; queries leave the context as
  it is and are not recorded. Object handles are numbered from a counter. A command of
  the context returns: what the host does with an argument of the wrong kind (a typed
  array where a texture is expected, say) is outside the model, and the value passed to
  \<open>uniform\<close> is carried through unread.
\<close>

datatype gl_value = GLUndefined | GLNumber nat | GLFunction

datatype shader_stage = FRAGMENT_SHADER | VERTEX_SHADER

datatype texture_target = TEXTURE_2D | TEXTURE_CUBE_MAP

datatype buffer_target = ARRAY_BUFFER

text \<open>
  The \<open>position\<close> of a binding: \<open>getAttribLocation\<close> returns a number,
  \<open>getUniformLocation\<close> a location object or \<open>null\<close>.
\<close>

datatype js_position = Index int | Location nat | Null

record active_info =
  info_name :: string
  info_size :: nat
  info_type :: nat

datatype 'v gl_arg = APosition js_position | ABool bool | AValue 'v

datatype 'v gl_call =
    CreateShader shader_stage nat
  | ShaderSource nat string
  | CompileShader nat
  | CreateProgram nat
  | AttachShader nat nat
  | LinkProgram nat
  | DeleteProgram nat
  | CallByName string "'v gl_arg list"
  | ActiveTexture gl_value
  | BindTexture texture_target 'v
  | Uniform1i js_position "nat option"
  | BindBuffer buffer_target nat
  | VertexAttribPointer js_position "nat option" gl_value bool int int
  | EnableVertexAttribArray js_position

record link_result =
  link_status :: bool
  program_info_log :: string
  active_attributes :: "active_info list"
  attrib_location :: "string \<Rightarrow> int"
  active_uniforms :: "active_info list"
  uniform_location :: "string \<Rightarrow> nat option"

record 'v gl_context =
  property :: "string \<Rightarrow> gl_value"
  compile_status :: "shader_stage \<Rightarrow> string \<Rightarrow> bool"
  shader_info_log :: "shader_stage \<Rightarrow> string \<Rightarrow> string"
  linker :: "string \<Rightarrow> string \<Rightarrow> link_result"
  next_object :: nat
  calls :: "'v gl_call list"

definition issue :: "'v gl_call list \<Rightarrow> 'v gl_context \<Rightarrow> 'v gl_context" where
  "issue cs gl = gl\<lparr>calls := calls gl @ cs\<rparr>"

section \<open>Binding tables\<close>

text \<open>
  A table is the object literal \<open>{}\<close> filled by assignment, so a lookup that finds no
  own property goes on to the prototype. \<open>Object.prototype\<close> holds eleven functions
  and the accessor \<open>__proto__\<close>; assigning an object to the key \<open>__proto__\<close> replaces
  the prototype and creates no own property. A lookup yields a binding, \<open>undefined\<close>,
  or some other value, of which only the truthiness matters: destructuring it gives a
  \<open>type\<close> that is no string.
\<close>

record binding =
  type :: string
  position :: js_position
  info :: active_info
  unit :: "nat option"

record table =
  own :: "string \<rightharpoonup> binding"
  proto :: "binding option"

datatype js_lookup = JUndefined | JBinding binding | JOther bool

definition empty_table :: table where
  "empty_table = \<lparr> own = Map.empty, proto = None \<rparr>"

definition object_prototype_keys :: "string list" where
  "object_prototype_keys =
     [''constructor'', ''__defineGetter__'', ''__defineSetter__'', ''hasOwnProperty'',
      ''__lookupGetter__'', ''__lookupSetter__'', ''isPrototypeOf'',
      ''propertyIsEnumerable'', ''toString'', ''valueOf'', ''toLocaleString'']"

definition truthy_position :: "js_position \<Rightarrow> bool" where
  "truthy_position p = (case p of Index i \<Rightarrow> i \<noteq> 0 | Location l \<Rightarrow> True | Null \<Rightarrow> False)"

definition binding_field :: "binding \<Rightarrow> string \<Rightarrow> js_lookup option" where
  "binding_field b k =
     (if k = ''type'' then Some (JOther (type b \<noteq> []))
      else if k = ''info'' then Some (JOther True)
      else if k = ''position'' then Some (JOther (truthy_position (position b)))
      else if k = ''unit'' then
        Some (case unit b of None \<Rightarrow> JUndefined | Some n \<Rightarrow> JOther (n \<noteq> 0))
      else None)"

definition js_get :: "table \<Rightarrow> string \<Rightarrow> js_lookup" where
  "js_get t k =
     (case own t k of
        Some b \<Rightarrow> JBinding b
      | None \<Rightarrow>
          if k = ''__proto__'' then
            (case proto t of Some b \<Rightarrow> JBinding b | None \<Rightarrow> JOther True)
          else
            (case (case proto t of Some b \<Rightarrow> binding_field b k | None \<Rightarrow> None) of
               Some v \<Rightarrow> v
             | None \<Rightarrow> if k \<in> set object_prototype_keys then JOther True else JUndefined))"

definition js_set :: "table \<Rightarrow> string \<Rightarrow> binding \<Rightarrow> table" where
  "js_set t k b =
     (if k = ''__proto__'' then t\<lparr>proto := Some b\<rparr> else t\<lparr>own := (own t)(k \<mapsto> b)\<rparr>)"

section \<open>The program\<close>

record IProgram =
  fShaderSource :: string
  vShaderSource :: string

record program =
  glProgram :: nat
  uniforms :: table
  attributes :: table
  textureCount :: nat
  this_fShaderSource :: string
  this_vShaderSource :: string

subsection \<open>destructor\<close>

definition destructor :: "program \<Rightarrow> 'v gl_context \<Rightarrow> program \<times> 'v gl_context" where
  "destructor this gl = (this, issue [DeleteProgram (glProgram this)] gl)"

subsection \<open>uniform\<close>

text \<open>\<open>gl[name](args)\<close>: a call of a property that is no function raises.\<close>

definition call_by_name ::
  "string \<Rightarrow> 'v gl_arg list \<Rightarrow> 'v gl_context \<Rightarrow> (js_error + unit) \<times> 'v gl_context" where
  "call_by_name m args gl =
     (if property gl m = GLFunction then (Inr (), issue [CallByName m args] gl)
      else (Inl TypeError, gl))"

definition uniform ::
  "program \<Rightarrow> string \<Rightarrow> 'v \<Rightarrow> 'v gl_context \<Rightarrow> (js_error + unit) \<times> 'v gl_context" where
  "uniform this name v gl =
     (case js_get (uniforms this) name of
        JUndefined \<Rightarrow> (Inr (), gl)
      | JOther truthy \<Rightarrow> if truthy then (Inl TypeError, gl) else (Inr (), gl)
      | JBinding b \<Rightarrow>
          (let pt = parseType (type b) in
           if baseVecType pt = ''VEC'' then
             call_by_name
               (''uniform'' @ js_number_string (vecSize pt)
                  @ (if baseType pt = ''FLOAT'' then ''f'' else ''i'') @ ''v'')
               [APosition (position b), AValue v] gl
           else if baseVecType pt = ''MAT'' then
             call_by_name
               (''uniformMatrix'' @ js_number_string (vecSize pt) @ ''fv'')
               [APosition (position b), ABool False, AValue v] gl
           else if baseVecType pt = ''2D'' then
             (Inr (),
              issue [ActiveTexture (property gl (''TEXTURE'' @ js_template (unit b))),
                     BindTexture TEXTURE_2D v,
                     Uniform1i (position b) (unit b)] gl)
           else if baseVecType pt = ''CUB'' then
             (Inr (),
              issue [ActiveTexture (property gl (''TEXTURE'' @ js_template (unit b))),
                     BindTexture TEXTURE_CUBE_MAP v,
                     Uniform1i (position b) (unit b)] gl)
           else (Inl (Error (''baseVecType invalid '' @ baseVecType pt)), gl)))"

subsection \<open>attribute\<close>

definition attribute ::
  "program \<Rightarrow> string \<Rightarrow> nat \<Rightarrow> int \<Rightarrow> int \<Rightarrow> 'v gl_context
     \<Rightarrow> (js_error + unit) \<times> 'v gl_context" where
  "attribute this name buffer stride offset gl =
     (case js_get (attributes this) name of
        JUndefined \<Rightarrow> (Inr (), gl)
      | JOther truthy \<Rightarrow> if truthy then (Inl TypeError, gl) else (Inr (), gl)
      | JBinding b \<Rightarrow>
          (let pt = parseType (type b) in
           (Inr (),
            issue [BindBuffer ARRAY_BUFFER buffer,
                   VertexAttribPointer (position b) (vecSize pt) (property gl (baseType pt))
                     False stride offset,
                   EnableVertexAttribArray (position b)] gl)))"

subsection \<open>initProgram\<close>

definition loadShader ::
  "shader_stage \<Rightarrow> string \<Rightarrow> 'v gl_context \<Rightarrow> (js_error + nat) \<times> 'v gl_context" where
  "loadShader ty source gl =
     (let shader = next_object gl;
          gl1 = issue [CreateShader ty shader, ShaderSource shader source, CompileShader shader]
                  (gl\<lparr>next_object := Suc shader\<rparr>)
      in if \<not> compile_status gl ty source then
           (Inl (Error (''An error occurred compiling the shaders: ''
                          @ shader_info_log gl ty source)), gl1)
         else (Inr shader, gl1))"

definition types :: "string list" where
  "types =
     [''FLOAT'', ''FLOAT_VEC2'', ''FLOAT_VEC3'', ''FLOAT_VEC4'',
      ''FLOAT_MAT2'', ''FLOAT_MAT3'', ''FLOAT_MAT4'',
      ''INT'', ''INT_VEC2'', ''INT_VEC3'', ''INT_VEC4'',
      ''BOOL'', ''BOOL_VEC2'', ''BOOL_VEC3'', ''BOOL_VEC4'',
      ''SAMPLER_2D'', ''SAMPLER_CUBE'']"

text \<open>
  The message of the last line is the template literal as the source has it: the text
  \<open>' + value\<close> is part of the literal, nothing is interpolated.
\<close>

definition getVariableType :: "'v gl_context \<Rightarrow> nat \<Rightarrow> js_error + string" where
  "getVariableType gl v =
     (case find (\<lambda>t. property gl t = GLNumber v) types of
        Some t \<Rightarrow> Inr t
      | None \<Rightarrow> Inl (Error ''get type failed ' + value''))"

fun reflect_attributes ::
  "'v gl_context \<Rightarrow> link_result \<Rightarrow> active_info list \<Rightarrow> table \<Rightarrow> js_error + table" where
  "reflect_attributes gl l [] attribs = Inr attribs"
| "reflect_attributes gl l (attrib # rest) attribs =
     (case getVariableType gl (info_type attrib) of
        Inl e \<Rightarrow> Inl e
      | Inr ty \<Rightarrow>
          (let res = \<lparr> type = ty,
                       position = Index (attrib_location l (info_name attrib)),
                       info = attrib,
                       unit = None \<rparr>
           in reflect_attributes gl l rest (js_set attribs (info_name attrib) res)))"

text \<open>The key a uniform is stored under (lines 196 to 199 of the source).\<close>

definition uniform_key :: "string \<Rightarrow> string" where
  "uniform_key name =
     (if js_indexOf name ''[0]'' \<noteq> - 1 then js_replace name ''[0]'' [] else name)"

text \<open>One turn of the uniform loop: the counter and the binding after the two tests.\<close>

definition allocate_unit :: "nat \<Rightarrow> binding \<Rightarrow> nat \<times> binding" where
  "allocate_unit tc res =
     (let bvt = baseVecType (parseType (type res));
          (tc1, res1) = (if bvt = ''2D'' then (Suc tc, res\<lparr>unit := Some (Suc tc)\<rparr>)
                         else (tc, res))
      in if bvt = ''CUB'' then (Suc tc1, res1\<lparr>unit := Some (Suc tc1)\<rparr>) else (tc1, res1))"

fun reflect_uniforms ::
  "'v gl_context \<Rightarrow> link_result \<Rightarrow> active_info list \<Rightarrow> nat \<times> table
     \<Rightarrow> js_error + (nat \<times> table)" where
  "reflect_uniforms gl l [] (tc, unis) = Inr (tc, unis)"
| "reflect_uniforms gl l (uni # rest) (tc, unis) =
     (case getVariableType gl (info_type uni) of
        Inl e \<Rightarrow> Inl e
      | Inr ty \<Rightarrow>
          (let res = \<lparr> type = ty,
                       position = (case uniform_location l (info_name uni) of
                                     None \<Rightarrow> Null | Some loc \<Rightarrow> Location loc),
                       info = uni,
                       unit = None \<rparr>;
               (tc', res') = allocate_unit tc res
           in reflect_uniforms gl l rest
                (tc', js_set unis (uniform_key (info_name uni)) res')))"

definition initProgram ::
  "string \<Rightarrow> string \<Rightarrow> nat \<Rightarrow> 'v gl_context \<Rightarrow> (js_error + program) \<times> 'v gl_context" where
  "initProgram fSource vSource tc0 gl =
     (case loadShader FRAGMENT_SHADER fSource gl of
        (Inl e, gl1) \<Rightarrow> (Inl e, gl1)
      | (Inr fShader, gl1) \<Rightarrow>
     (case loadShader VERTEX_SHADER vSource gl1 of
        (Inl e, gl2) \<Rightarrow> (Inl e, gl2)
      | (Inr vShader, gl2) \<Rightarrow>
     (let prog = next_object gl2;
          gl3 = issue [CreateProgram prog, AttachShader prog vShader,
                       AttachShader prog fShader, LinkProgram prog]
                  (gl2\<lparr>next_object := Suc prog\<rparr>);
          l = linker gl vSource fSource
      in if \<not> link_status l then
           (Inl (Error (''Unable to initialize the shader program: '' @ program_info_log l)),
            gl3)
         else
     (case reflect_attributes gl3 l (active_attributes l) empty_table of
        Inl e \<Rightarrow> (Inl e, gl3)
      | Inr attrs \<Rightarrow>
     (case reflect_uniforms gl3 l (active_uniforms l) (tc0, empty_table) of
        Inl e \<Rightarrow> (Inl e, gl3)
      | Inr (tc, unis) \<Rightarrow>
          (Inr \<lparr> glProgram = prog, uniforms = unis, attributes = attrs,
                 textureCount = tc,
                 this_fShaderSource = fSource, this_vShaderSource = vSource \<rparr>,
           gl3))))))"

text \<open>
  \<open>new Program({fShaderSource, vShaderSource})\<close>: the field initialiser sets the
  counter to 0, then \<open>initProgram\<close> runs. When it raises, no object is returned.
\<close>

definition Program_constructor ::
  "IProgram \<Rightarrow> 'v gl_context \<Rightarrow> (js_error + program) \<times> 'v gl_context" where
  "Program_constructor ip gl = initProgram (fShaderSource ip) (vShaderSource ip) 0 gl"

section \<open>The specification's descriptor\<close>

text \<open>
  The descriptor as the specification words it, to be compared with \<open>parseType\<close>: the
  first segment is the base type; the first three characters of a second segment select
  the category and its trailing digit, when present, is the arity; a token with no second
  segment is a scalar of arity 1.
\<close>

datatype category = SCALAR | VECTOR | MATRIX | SAMPLER_2D | SAMPLER_CUBE

definition category_of :: "string \<Rightarrow> category option" where
  "category_of s =
     (if s = ''VEC'' then Some VECTOR
      else if s = ''MAT'' then Some MATRIX
      else if s = ''2D'' then Some SAMPLER_2D
      else if s = ''CUB'' then Some SAMPLER_CUBE
      else None)"

definition trailing_digit :: "string \<Rightarrow> nat option" where
  "trailing_digit s =
     (if s = [] then None
      else (let n = (of_char (last s) :: nat) in
            if 48 \<le> n \<and> n \<le> 57 then Some (n - 48) else None))"

definition spec_parseType :: "string \<Rightarrow> string \<times> category option \<times> nat option" where
  "spec_parseType token =
     (case js_split CHR ''_'' token of
        [] \<Rightarrow> (token, None, None)
      | [b] \<Rightarrow> (b, Some SCALAR, Some 1)
      | b # s # rest \<Rightarrow> (b, category_of (take 3 s), trailing_digit s))"

definition descriptor :: "parsed_type \<Rightarrow> string \<times> category option \<times> nat option" where
  "descriptor pt = (baseType pt, category_of (baseVecType pt), vecSize pt)"

section \<open>Notions used in the statements\<close>

text \<open>A reported uniform is a sampler when its type resolves to one of the two sampler tokens.\<close>

definition is_sampler :: "'v gl_context \<Rightarrow> active_info \<Rightarrow> bool" where
  "is_sampler gl u =
     (getVariableType gl (info_type u) = Inr ''SAMPLER_2D''
      \<or> getVariableType gl (info_type u) = Inr ''SAMPLER_CUBE'')"

text \<open>The texture unit of the binding a name resolves to.\<close>

definition unit_at :: "table \<Rightarrow> string \<Rightarrow> nat option" where
  "unit_at t k = (case js_get t k of JBinding b \<Rightarrow> unit b | _ \<Rightarrow> None)"

text \<open>The uniforms the driver reports for the sources of a construction.\<close>

definition reported_uniforms :: "IProgram \<Rightarrow> 'v gl_context \<Rightarrow> active_info list" where
  "reported_uniforms ip gl = active_uniforms (linker gl (vShaderSource ip) (fShaderSource ip))"

text \<open>The upload entry points of a WebGL context that the dispatcher can name.\<close>

definition upload_methods :: "string list" where
  "upload_methods =
     [''uniform1fv'', ''uniform2fv'', ''uniform3fv'', ''uniform4fv'',
      ''uniform1iv'', ''uniform2iv'', ''uniform3iv'', ''uniform4iv'',
      ''uniformMatrix2fv'', ''uniformMatrix3fv'', ''uniformMatrix4fv'']"

definition has_uploads :: "'v gl_context \<Rightarrow> bool" where
  "has_uploads gl = list_all (\<lambda>m. property gl m = GLFunction) upload_methods"

text \<open>The keys a lookup can find without an own property of that name.\<close>

definition inherited_keys :: "string list" where
  "inherited_keys =
     ''__proto__'' # ''type'' # ''info'' # ''position'' # ''unit'' # object_prototype_keys"

section \<open>A WebGL context for the examples\<close>

text \<open>
  The constants are those of the WebGL 1.0 interface. The driver of the example rejects
  the source \<open>#error\<close> in either stage and links everything else to the reflection
  data it is given.
\<close>

definition webgl_properties :: "(string \<times> gl_value) list" where
  "webgl_properties =
     [(''FLOAT'', GLNumber 5126), (''INT'', GLNumber 5124), (''BOOL'', GLNumber 35670),
      (''FLOAT_VEC2'', GLNumber 35664), (''FLOAT_VEC3'', GLNumber 35665),
      (''FLOAT_VEC4'', GLNumber 35666),
      (''INT_VEC2'', GLNumber 35667), (''INT_VEC3'', GLNumber 35668),
      (''INT_VEC4'', GLNumber 35669),
      (''BOOL_VEC2'', GLNumber 35671), (''BOOL_VEC3'', GLNumber 35672),
      (''BOOL_VEC4'', GLNumber 35673),
      (''FLOAT_MAT2'', GLNumber 35674), (''FLOAT_MAT3'', GLNumber 35675),
      (''FLOAT_MAT4'', GLNumber 35676),
      (''SAMPLER_2D'', GLNumber 35678), (''SAMPLER_CUBE'', GLNumber 35680),
      (''uniform1fv'', GLFunction), (''uniform2fv'', GLFunction),
      (''uniform3fv'', GLFunction), (''uniform4fv'', GLFunction),
      (''uniform1iv'', GLFunction), (''uniform2iv'', GLFunction),
      (''uniform3iv'', GLFunction), (''uniform4iv'', GLFunction),
      (''uniformMatrix2fv'', GLFunction), (''uniformMatrix3fv'', GLFunction),
      (''uniformMatrix4fv'', GLFunction),
      (''TEXTURE0'', GLNumber 33984),
      (''TEXTURE1'', GLNumber 33985),
      (''TEXTURE2'', GLNumber 33986),
      (''TEXTURE3'', GLNumber 33987),
      (''TEXTURE4'', GLNumber 33988),
      (''TEXTURE5'', GLNumber 33989),
      (''TEXTURE6'', GLNumber 33990),
      (''TEXTURE7'', GLNumber 33991),
      (''TEXTURE8'', GLNumber 33992),
      (''TEXTURE9'', GLNumber 33993),
      (''TEXTURE10'', GLNumber 33994),
      (''TEXTURE11'', GLNumber 33995),
      (''TEXTURE12'', GLNumber 33996),
      (''TEXTURE13'', GLNumber 33997),
      (''TEXTURE14'', GLNumber 33998),
      (''TEXTURE15'', GLNumber 33999),
      (''TEXTURE16'', GLNumber 34000),
      (''TEXTURE17'', GLNumber 34001),
      (''TEXTURE18'', GLNumber 34002),
      (''TEXTURE19'', GLNumber 34003),
      (''TEXTURE20'', GLNumber 34004),
      (''TEXTURE21'', GLNumber 34005),
      (''TEXTURE22'', GLNumber 34006),
      (''TEXTURE23'', GLNumber 34007),
      (''TEXTURE24'', GLNumber 34008),
      (''TEXTURE25'', GLNumber 34009),
      (''TEXTURE26'', GLNumber 34010),
      (''TEXTURE27'', GLNumber 34011),
      (''TEXTURE28'', GLNumber 34012),
      (''TEXTURE29'', GLNumber 34013),
      (''TEXTURE30'', GLNumber 34014),
      (''TEXTURE31'', GLNumber 34015)]"

definition webgl :: "link_result \<Rightarrow> nat gl_context" where
  "webgl l =
     \<lparr> property = (\<lambda>k. case map_of webgl_properties k of None \<Rightarrow> GLUndefined | Some v \<Rightarrow> v),
       compile_status = (\<lambda>st src. src \<noteq> ''#error''),
       shader_info_log = (\<lambda>st src. ''ERROR: 0:1: unexpected directive''),
       linker = (\<lambda>vs fs. l),
       next_object = 1,
       calls = [] \<rparr>"

definition demo_link :: link_result where
  "demo_link =
     \<lparr> link_status = True,
       program_info_log = [],
       active_attributes =
         [\<lparr> info_name = ''aPosition'', info_size = 1, info_type = 35665 \<rparr>,
          \<lparr> info_name = ''aUV'', info_size = 1, info_type = 35664 \<rparr>],
       attrib_location = (\<lambda>n. if n = ''aPosition'' then 0 else if n = ''aUV'' then 1 else - 1),
       active_uniforms =
         [\<lparr> info_name = ''uPMatrix'', info_size = 1, info_type = 35676 \<rparr>,
          \<lparr> info_name = ''uSampler'', info_size = 1, info_type = 35678 \<rparr>,
          \<lparr> info_name = ''uWeights[0]'', info_size = 4, info_type = 5126 \<rparr>,
          \<lparr> info_name = ''uEnv'', info_size = 1, info_type = 35680 \<rparr>],
       uniform_location =
         map_of [(''uPMatrix'', 10), (''uSampler'', 11), (''uWeights[0]'', 12), (''uEnv'', 16)] \<rparr>"

definition demo_sources :: IProgram where
  "demo_sources = \<lparr> fShaderSource = ''void main() {}'', vShaderSource = ''void main() {}'' \<rparr>"

definition demo_program :: program where
  "demo_program = projr (fst (Program_constructor demo_sources (webgl demo_link)))"

definition demo_gl :: "nat gl_context" where
  "demo_gl = snd (Program_constructor demo_sources (webgl demo_link))"

text \<open>A program whose one uniform is an array inside an element of an array of structures.\<close>

definition nested_link :: link_result where
  "nested_link =
     \<lparr> link_status = True,
       program_info_log = [],
       active_attributes = [],
       attrib_location = (\<lambda>n. - 1),
       active_uniforms = [\<lparr> info_name = ''a[0].b[0]'', info_size = 2, info_type = 5126 \<rparr>],
       uniform_location = map_of [(''a[0].b[0]'', 3)] \<rparr>"

definition nested_program :: program where
  "nested_program = projr (fst (Program_constructor demo_sources (webgl nested_link)))"

text \<open>A program with an attribute of a type outside the seventeen (a 2 by 3 matrix).\<close>

definition unsupported_link :: "nat \<Rightarrow> link_result" where
  "unsupported_link v =
     \<lparr> link_status = True,
       program_info_log = [],
       active_attributes = [\<lparr> info_name = ''aShear'', info_size = 1, info_type = v \<rparr>],
       attrib_location = (\<lambda>n. 0),
       active_uniforms = [],
       uniform_location = (\<lambda>n. None) \<rparr>"


text \<open>The two tables that reflection builds for the example.\<close>

definition demo_uniforms :: table where
  "demo_uniforms =
     \<lparr> own =
         [''uPMatrix'' \<mapsto>
            \<lparr> type = ''FLOAT_MAT4'', position = Location 10,
              info = \<lparr> info_name = ''uPMatrix'', info_size = 1, info_type = 35676 \<rparr>,
              unit = None \<rparr>,
          ''uSampler'' \<mapsto>
            \<lparr> type = ''SAMPLER_2D'', position = Location 11,
              info = \<lparr> info_name = ''uSampler'', info_size = 1, info_type = 35678 \<rparr>,
              unit = Some 1 \<rparr>,
          ''uWeights'' \<mapsto>
            \<lparr> type = ''FLOAT'', position = Location 12,
              info = \<lparr> info_name = ''uWeights[0]'', info_size = 4, info_type = 5126 \<rparr>,
              unit = None \<rparr>,
          ''uEnv'' \<mapsto>
            \<lparr> type = ''SAMPLER_CUBE'', position = Location 16,
              info = \<lparr> info_name = ''uEnv'', info_size = 1, info_type = 35680 \<rparr>,
              unit = Some 2 \<rparr>],
       proto = None \<rparr>"

definition demo_attributes :: table where
  "demo_attributes =
     \<lparr> own =
         [''aPosition'' \<mapsto>
            \<lparr> type = ''FLOAT_VEC3'', position = Index 0,
              info = \<lparr> info_name = ''aPosition'', info_size = 1, info_type = 35665 \<rparr>,
              unit = None \<rparr>,
          ''aUV'' \<mapsto>
            \<lparr> type = ''FLOAT_VEC2'', position = Index 1,
              info = \<lparr> info_name = ''aUV'', info_size = 1, info_type = 35664 \<rparr>,
              unit = None \<rparr>],
       proto = None \<rparr>"

text \<open>A second instance, built in the context the first construction has left.\<close>

definition demo_program2 :: program where
  "demo_program2 = projr (fst (Program_constructor demo_sources demo_gl))"

text \<open>
  The constant of texture unit \<open>n\<close> in the graphics interface is \<open>TEXTURE0 + n\<close>,
  and \<open>TEXTURE0\<close> is 33984. A WebGL context names the units 0 to 31, as
  \<open>TEXTURE0\<close> to \<open>TEXTURE31\<close>, and no further one.
\<close>

definition texture_unit :: "nat \<Rightarrow> gl_value" where
  "texture_unit n = GLNumber (33984 + n)"

definition texture_units :: "nat list" where
  "texture_units =
     [0, 1, 2, 3, 4, 5, 6, 7, 8, 9, 10, 11, 12, 13, 14, 15, 16, 17, 18, 19, 20, 21, 22, 23, 24, 25, 26, 27, 28, 29, 30, 31]"

definition has_texture_units :: "'v gl_context \<Rightarrow> bool" where
  "has_texture_units gl =
     list_all (\<lambda>n. property gl (''TEXTURE'' @ js_nat_string n) = texture_unit n) texture_units"

text \<open>The arity and the base type of a token, read off the specification's descriptor.\<close>

definition spec_arity :: "string \<Rightarrow> nat option" where
  "spec_arity token = snd (snd (spec_parseType token))"

definition spec_baseType :: "string \<Rightarrow> string" where
  "spec_baseType token = fst (spec_parseType token)"



section \<open>The type parser on the seventeen tokens\<close>

text \<open>\<open>split\<close> returns at least one segment, so the first one exists.\<close>

lemma js_split_nonempty: "js_split c s \<noteq> []"
  by (induction s) (auto split: list.split)

lemma parseType_baseType: "baseType (parseType ty) = hd (js_split CHR ''_'' ty)"
  by (simp add: parseType_def)

lemma parseType_types:
  "parseType ''FLOAT'' = \<lparr>baseType = ''FLOAT'', vecType = ''VEC1'', baseVecType = ''VEC'', vecSize = Some 1\<rparr>"
  "parseType ''FLOAT_VEC2'' = \<lparr>baseType = ''FLOAT'', vecType = ''VEC2'', baseVecType = ''VEC'', vecSize = Some 2\<rparr>"
  "parseType ''FLOAT_VEC3'' = \<lparr>baseType = ''FLOAT'', vecType = ''VEC3'', baseVecType = ''VEC'', vecSize = Some 3\<rparr>"
  "parseType ''FLOAT_VEC4'' = \<lparr>baseType = ''FLOAT'', vecType = ''VEC4'', baseVecType = ''VEC'', vecSize = Some 4\<rparr>"
  "parseType ''FLOAT_MAT2'' = \<lparr>baseType = ''FLOAT'', vecType = ''MAT2'', baseVecType = ''MAT'', vecSize = Some 2\<rparr>"
  "parseType ''FLOAT_MAT3'' = \<lparr>baseType = ''FLOAT'', vecType = ''MAT3'', baseVecType = ''MAT'', vecSize = Some 3\<rparr>"
  "parseType ''FLOAT_MAT4'' = \<lparr>baseType = ''FLOAT'', vecType = ''MAT4'', baseVecType = ''MAT'', vecSize = Some 4\<rparr>"
  "parseType ''INT'' = \<lparr>baseType = ''INT'', vecType = ''VEC1'', baseVecType = ''VEC'', vecSize = Some 1\<rparr>"
  "parseType ''INT_VEC2'' = \<lparr>baseType = ''INT'', vecType = ''VEC2'', baseVecType = ''VEC'', vecSize = Some 2\<rparr>"
  "parseType ''INT_VEC3'' = \<lparr>baseType = ''INT'', vecType = ''VEC3'', baseVecType = ''VEC'', vecSize = Some 3\<rparr>"
  "parseType ''INT_VEC4'' = \<lparr>baseType = ''INT'', vecType = ''VEC4'', baseVecType = ''VEC'', vecSize = Some 4\<rparr>"
  "parseType ''BOOL'' = \<lparr>baseType = ''BOOL'', vecType = ''VEC1'', baseVecType = ''VEC'', vecSize = Some 1\<rparr>"
  "parseType ''BOOL_VEC2'' = \<lparr>baseType = ''BOOL'', vecType = ''VEC2'', baseVecType = ''VEC'', vecSize = Some 2\<rparr>"
  "parseType ''BOOL_VEC3'' = \<lparr>baseType = ''BOOL'', vecType = ''VEC3'', baseVecType = ''VEC'', vecSize = Some 3\<rparr>"
  "parseType ''BOOL_VEC4'' = \<lparr>baseType = ''BOOL'', vecType = ''VEC4'', baseVecType = ''VEC'', vecSize = Some 4\<rparr>"
  "parseType ''SAMPLER_2D'' = \<lparr>baseType = ''SAMPLER'', vecType = ''2D'', baseVecType = ''2D'', vecSize = None\<rparr>"
  "parseType ''SAMPLER_CUBE'' = \<lparr>baseType = ''SAMPLER'', vecType = ''CUBE'', baseVecType = ''CUB'', vecSize = None\<rparr>"
  by (simp_all add: parseType_def js_Number_def js_charAt_def js_whitespace_def)

text \<open>A property checked on each of the seventeen tokens holds of every member of \<open>types\<close>.\<close>

lemma types_all: "list_all P types \<Longrightarrow> t \<in> set types \<Longrightarrow> P t"
  by (simp add: list_all_iff)

lemma descriptor_all:
  "list_all (\<lambda>t. descriptor (parseType t) =
           (if 1 < length (js_split CHR ''_'' t) then spec_parseType t
            else (t, Some VECTOR, Some 1))) types"
  unfolding types_def
  by (simp add: parseType_types descriptor_def spec_parseType_def category_of_def
      trailing_digit_def)

lemma handled_all:
  "list_all (\<lambda>t. baseVecType (parseType t) \<in> {''VEC'', ''MAT'', ''2D'', ''CUB''}) types"
  unfolding types_def by (simp add: parseType_types)

lemma sampler_all:
  "list_all (\<lambda>t. (baseVecType (parseType t) = ''2D'' \<longleftrightarrow> t = ''SAMPLER_2D'')
               \<and> (baseVecType (parseType t) = ''CUB'' \<longleftrightarrow> t = ''SAMPLER_CUBE'')) types"
  unfolding types_def by (simp add: parseType_types)

lemma getVariableType_types: "getVariableType gl v = Inr t \<Longrightarrow> t \<in> set types"
  by (auto simp: getVariableType_def find_Some_iff split: option.splits)

lemma getVariableType_cong:
  "property gl' = property gl \<Longrightarrow> getVariableType gl' v = getVariableType gl v"
  by (simp add: getVariableType_def)

text \<open>
  C2, as amended. For each of the seventeen tokens \<open>parseType\<close> returns the base type
  before the separator; when a second segment exists, its first three characters select
  the category and its trailing digit, when present, is the arity, as the specification
  has it; a token with no second segment is given the shape \<open>VEC1\<close>, so its category
  is VECTOR, not SCALAR, and its arity is 1.
\<close>

theorem parseType_descriptor:
  assumes "t \<in> set types"
  shows "descriptor (parseType t) =
           (if 1 < length (js_split CHR ''_'' t) then spec_parseType t
            else (t, Some VECTOR, Some 1))"
  using types_all [OF descriptor_all assms] .

theorem parseType_descriptor_witness:
  "''FLOAT_VEC3'' \<in> set types \<and> ''BOOL'' \<in> set types
   \<and> descriptor (parseType ''FLOAT_VEC3'') = (''FLOAT'', Some VECTOR, Some 3)
   \<and> descriptor (parseType ''BOOL'') = (''BOOL'', Some VECTOR, Some 1)"
proof -
  have a: "''FLOAT_VEC3'' \<in> set types" and b: "''BOOL'' \<in> set types"
    by (simp_all add: types_def)
  show ?thesis
    using a b parseType_descriptor [OF a] parseType_descriptor [OF b]
    by (simp add: spec_parseType_def category_of_def trailing_digit_def)
qed

text \<open>
  C2, as stated, fails on the bare scalars: the specification's descriptor of \<open>FLOAT\<close>
  has the category SCALAR, the program's has VECTOR.
\<close>

theorem parseType_scalar_counterexample:
  "spec_parseType ''FLOAT'' = (''FLOAT'', Some SCALAR, Some 1)
   \<and> descriptor (parseType ''FLOAT'') = (''FLOAT'', Some VECTOR, Some 1)
   \<and> descriptor (parseType ''FLOAT'') \<noteq> spec_parseType ''FLOAT''"
  by (simp add: parseType_types descriptor_def spec_parseType_def category_of_def)

section \<open>Lookups in a table\<close>

lemma binding_field_no_binding: "binding_field b k \<noteq> Some (JBinding b')"
  by (simp add: binding_field_def split: option.split)

lemma js_get_JBinding_iff:
  "js_get t k = JBinding b \<longleftrightarrow>
     own t k = Some b \<or> (own t k = None \<and> k = ''__proto__'' \<and> proto t = Some b)"
proof (cases "own t k")
  case (Some a)
  then show ?thesis by (simp add: js_get_def)
next
  case None
  note absent = this
  show ?thesis
  proof (cases "k = ''__proto__''")
    case True
    with absent show ?thesis by (simp add: js_get_def split: option.split)
  next
    case False
    note other = this
    show ?thesis
    proof (cases "proto t")
      case None
      with absent other show ?thesis by (simp add: js_get_def)
    next
      case (Some p)
      note parent = this
      show ?thesis
      proof (cases "binding_field p k")
        case None
        with absent other parent show ?thesis by (simp add: js_get_def)
      next
        case (Some v)
        with binding_field_no_binding [of p k b] have "v \<noteq> JBinding b" by auto
        with absent other parent Some show ?thesis by (simp add: js_get_def)
      qed
    qed
  qed
qed

lemma own_js_set:
  "own (js_set t k' v) k =
     (if k' = ''__proto__'' then own t k else if k = k' then Some v else own t k)"
  by (simp add: js_set_def)

lemma proto_js_set:
  "proto (js_set t k' v) = (if k' = ''__proto__'' then Some v else proto t)"
  by (simp add: js_set_def)

lemma js_get_set_same: "own t ''__proto__'' = None \<Longrightarrow> js_get (js_set t k b) k = JBinding b"
  by (simp add: js_get_JBinding_iff own_js_set proto_js_set)

lemma js_set_own_proto:
  "own t ''__proto__'' = None \<Longrightarrow> own (js_set t k b) ''__proto__'' = None"
  by (simp add: own_js_set)

lemma js_get_set_other:
  "own t ''__proto__'' = None \<Longrightarrow> k' \<noteq> k \<Longrightarrow> js_get t k = JBinding b
     \<Longrightarrow> js_get (js_set t k' v) k = JBinding b"
  unfolding js_get_JBinding_iff own_js_set proto_js_set by auto

lemma binding_field_None:
  "k \<notin> set inherited_keys \<Longrightarrow> binding_field b k = None"
  by (simp add: binding_field_def inherited_keys_def)

lemma js_get_absent:
  assumes "own t k = None" and "k \<notin> set inherited_keys"
  shows "js_get t k = JUndefined"
proof -
  have a: "k \<noteq> ''__proto__''" and b: "k \<notin> set object_prototype_keys"
    using assms(2) by (simp_all add: inherited_keys_def)
  show ?thesis
    using assms(1) a b binding_field_None [OF assms(2)]
    by (simp add: js_get_def split: option.split)
qed

section \<open>The steps of initProgram\<close>

lemma getVariableType_calls [simp]:
  "getVariableType (gl\<lparr>calls := c\<rparr>) v = getVariableType gl v"
  by (rule getVariableType_cong) simp

lemma getVariableType_next_object [simp]:
  "getVariableType (gl\<lparr>next_object := n\<rparr>) v = getVariableType gl v"
  by (rule getVariableType_cong) simp

lemma reflect_attributes_cong:
  "property gl' = property gl \<Longrightarrow>
     reflect_attributes gl' l as t = reflect_attributes gl l as t"
  by (induction as arbitrary: t)
     (simp_all add: getVariableType_cong [of gl' gl] Let_def split: sum.split)

lemma reflect_uniforms_cong:
  "property gl' = property gl \<Longrightarrow>
     reflect_uniforms gl' l us st = reflect_uniforms gl l us st"
proof (induction us arbitrary: st)
  case Nil
  then show ?case by (cases st) simp
next
  case (Cons u us)
  then show ?case
    by (cases st) (simp add: getVariableType_cong [of gl' gl] split: sum.split prod.split)
qed

lemma reflect_attributes_calls [simp]:
  "reflect_attributes (gl\<lparr>calls := c\<rparr>) l as t = reflect_attributes gl l as t"
  by (rule reflect_attributes_cong) simp

lemma reflect_attributes_next_object [simp]:
  "reflect_attributes (gl\<lparr>next_object := n\<rparr>) l as t = reflect_attributes gl l as t"
  by (rule reflect_attributes_cong) simp

lemma reflect_uniforms_calls [simp]:
  "reflect_uniforms (gl\<lparr>calls := c\<rparr>) l us st = reflect_uniforms gl l us st"
  by (rule reflect_uniforms_cong) simp

lemma reflect_uniforms_next_object [simp]:
  "reflect_uniforms (gl\<lparr>next_object := n\<rparr>) l us st = reflect_uniforms gl l us st"
  by (rule reflect_uniforms_cong) simp

lemma initProgram_Inr:
  assumes "fst (initProgram fs vs tc0 gl) = Inr p"
  shows "compile_status gl FRAGMENT_SHADER fs \<and> compile_status gl VERTEX_SHADER vs
       \<and> link_status (linker gl vs fs)
       \<and> reflect_attributes gl (linker gl vs fs) (active_attributes (linker gl vs fs))
            empty_table = Inr (attributes p)
       \<and> reflect_uniforms gl (linker gl vs fs) (active_uniforms (linker gl vs fs))
            (tc0, empty_table) = Inr (textureCount p, uniforms p)"
  using assms
  unfolding initProgram_def loadShader_def Let_def
  by (auto simp: issue_def split: if_splits sum.splits prod.splits)

lemma initProgram_compile_fragment:
  assumes "\<not> compile_status gl FRAGMENT_SHADER fs"
  shows "initProgram fs vs tc0 gl =
      (Inl (Error (''An error occurred compiling the shaders: ''
                       @ shader_info_log gl FRAGMENT_SHADER fs)),
         gl\<lparr> next_object := Suc (next_object gl),
             calls := calls gl @
               [CreateShader FRAGMENT_SHADER (next_object gl),
                ShaderSource (next_object gl) fs, CompileShader (next_object gl)] \<rparr>)"
  using assms
  unfolding initProgram_def loadShader_def Let_def
  by (simp add: issue_def)

lemma initProgram_compile_vertex:
  assumes "compile_status gl FRAGMENT_SHADER fs" "\<not> compile_status gl VERTEX_SHADER vs"
  shows "initProgram fs vs tc0 gl =
        (Inl (Error (''An error occurred compiling the shaders: ''
                       @ shader_info_log gl VERTEX_SHADER vs)),
         gl\<lparr> next_object := Suc (Suc (next_object gl)),
             calls := calls gl @
               [CreateShader FRAGMENT_SHADER (next_object gl),
                ShaderSource (next_object gl) fs, CompileShader (next_object gl),
                CreateShader VERTEX_SHADER (Suc (next_object gl)),
                ShaderSource (Suc (next_object gl)) vs,
                CompileShader (Suc (next_object gl))] \<rparr>)"
  using assms
  unfolding initProgram_def loadShader_def Let_def
  by (simp add: issue_def)

lemma initProgram_reflected:
  assumes "compile_status gl FRAGMENT_SHADER fs" "compile_status gl VERTEX_SHADER vs"
    and "link_status (linker gl vs fs)"
  shows "fst (initProgram fs vs tc0 gl) =
     (case reflect_attributes gl (linker gl vs fs) (active_attributes (linker gl vs fs))
                empty_table of
           Inl e \<Rightarrow> Inl e
         | Inr attrs \<Rightarrow>
             (case reflect_uniforms gl (linker gl vs fs) (active_uniforms (linker gl vs fs))
                     (tc0, empty_table) of
                Inl e \<Rightarrow> Inl e
              | Inr (tc, unis) \<Rightarrow>
                  Inr \<lparr> glProgram = Suc (Suc (next_object gl)), uniforms = unis,
                         attributes = attrs, textureCount = tc,
                         this_fShaderSource = fs, this_vShaderSource = vs \<rparr>))"
  using assms
  unfolding initProgram_def loadShader_def Let_def
  by (simp add: issue_def split: sum.split prod.split)

lemma initProgram_calls:
  assumes "compile_status gl FRAGMENT_SHADER fs" "compile_status gl VERTEX_SHADER vs"
  shows "snd (initProgram fs vs tc0 gl) =
     gl\<lparr> next_object := Suc (Suc (Suc (next_object gl))),
         calls := calls gl @
           [CreateShader FRAGMENT_SHADER (next_object gl), ShaderSource (next_object gl) fs,
            CompileShader (next_object gl),
            CreateShader VERTEX_SHADER (Suc (next_object gl)), ShaderSource (Suc (next_object gl)) vs,
            CompileShader (Suc (next_object gl)),
            CreateProgram (Suc (Suc (next_object gl))),
            AttachShader (Suc (Suc (next_object gl))) (Suc (next_object gl)),
            AttachShader (Suc (Suc (next_object gl))) (next_object gl),
            LinkProgram (Suc (Suc (next_object gl)))] \<rparr>"
  using assms
  unfolding initProgram_def loadShader_def Let_def
  by (simp add: issue_def split: sum.split prod.split)

section \<open>The uniform loop\<close>

lemma allocate_unit_types:
  assumes "type res \<in> set types"
  shows "allocate_unit tc res =
           (if type res = ''SAMPLER_2D'' \<or> type res = ''SAMPLER_CUBE''
            then (Suc tc, res\<lparr>unit := Some (Suc tc)\<rparr>) else (tc, res))"
proof -
  have "(baseVecType (parseType (type res)) = ''2D'' \<longleftrightarrow> type res = ''SAMPLER_2D'')
      \<and> (baseVecType (parseType (type res)) = ''CUB'' \<longleftrightarrow> type res = ''SAMPLER_CUBE'')"
    using types_all [OF sampler_all assms] .
  then show ?thesis by (auto simp: allocate_unit_def)
qed

text \<open>The binding the loop builds for a reported uniform when the counter stands at \<open>tc\<close>.\<close>

lemma reflect_uniforms_Cons:
  assumes "reflect_uniforms gl l (u # us) (tc, t) = Inr r"
  obtains ty where "getVariableType gl (info_type u) = Inr ty"
    and "reflect_uniforms gl l us
           (if is_sampler gl u then Suc tc else tc,
            js_set t (uniform_key (info_name u))
              \<lparr> type = ty,
                position = (case uniform_location l (info_name u) of
                              None \<Rightarrow> Null | Some loc \<Rightarrow> Location loc),
                info = u,
                unit = (if is_sampler gl u then Some (Suc tc) else None) \<rparr>) = Inr r"
proof (cases "getVariableType gl (info_type u)")
  case (Inl e)
  with assms show ?thesis by simp
next
  case (Inr ty)
  then have ty: "ty \<in> set types" by (rule getVariableType_types)
  let ?res = "\<lparr> type = ty,
                position = (case uniform_location l (info_name u) of
                              None \<Rightarrow> Null | Some loc \<Rightarrow> Location loc),
                info = u, unit = None \<rparr>"
  have "type ?res \<in> set types" using ty by simp
  note au = allocate_unit_types [OF this, of tc]
  show ?thesis
    using assms Inr au by (intro that [of ty]) (auto simp: is_sampler_def)
qed

lemma reflect_uniforms_own_proto:
  "reflect_uniforms gl l us (tc, t) = Inr (tc', t') \<Longrightarrow> own t ''__proto__'' = None
     \<Longrightarrow> own t' ''__proto__'' = None"
proof (induction us arbitrary: tc t)
  case Nil
  then show ?case by simp
next
  case (Cons u us)
  from Cons.prems(1) show ?case
  proof (rule reflect_uniforms_Cons)
    fix ty
    assume "reflect_uniforms gl l us
           (if is_sampler gl u then Suc tc else tc,
            js_set t (uniform_key (info_name u))
              \<lparr> type = ty,
                position = (case uniform_location l (info_name u) of
                              None \<Rightarrow> Null | Some loc \<Rightarrow> Location loc),
                info = u,
                unit = (if is_sampler gl u then Some (Suc tc) else None) \<rparr>) = Inr (tc', t')"
    then show ?thesis
      by (rule Cons.IH) (rule js_set_own_proto [OF Cons.prems(2)])
  qed
qed

lemma reflect_uniforms_keeps:
  "reflect_uniforms gl l us (tc, t) = Inr (tc', t') \<Longrightarrow> own t ''__proto__'' = None
     \<Longrightarrow> k \<notin> set (map (\<lambda>w. uniform_key (info_name w)) us) \<Longrightarrow> js_get t k = JBinding b
     \<Longrightarrow> js_get t' k = JBinding b"
proof (induction us arbitrary: tc t)
  case Nil
  then show ?case by simp
next
  case (Cons u us)
  from Cons.prems(3) have ne: "uniform_key (info_name u) \<noteq> k"
    and rest: "k \<notin> set (map (\<lambda>w. uniform_key (info_name w)) us)" by auto
  from Cons.prems(1) show ?case
  proof (rule reflect_uniforms_Cons)
    fix ty
    let ?t1 = "js_set t (uniform_key (info_name u))
              \<lparr> type = ty,
                position = (case uniform_location l (info_name u) of
                              None \<Rightarrow> Null | Some loc \<Rightarrow> Location loc),
                info = u,
                unit = (if is_sampler gl u then Some (Suc tc) else None) \<rparr>"
    assume "reflect_uniforms gl l us (if is_sampler gl u then Suc tc else tc, ?t1) = Inr (tc', t')"
    then show ?thesis
    proof (rule Cons.IH)
      show "own ?t1 ''__proto__'' = None" by (rule js_set_own_proto [OF Cons.prems(2)])
      show "k \<notin> set (map (\<lambda>w. uniform_key (info_name w)) us)" by (rule rest)
      show "js_get ?t1 k = JBinding b"
        by (rule js_get_set_other [OF Cons.prems(2) ne Cons.prems(4)])
    qed
  qed
qed

lemma reflect_uniforms_own_other:
  "reflect_uniforms gl l us (tc, t) = Inr (tc', t')
     \<Longrightarrow> k \<notin> set (map (\<lambda>w. uniform_key (info_name w)) us) \<Longrightarrow> own t' k = own t k"
proof (induction us arbitrary: tc t)
  case Nil
  then show ?case by simp
next
  case (Cons u us)
  from Cons.prems(2) have ne: "uniform_key (info_name u) \<noteq> k"
    and rest: "k \<notin> set (map (\<lambda>w. uniform_key (info_name w)) us)" by auto
  from Cons.prems(1) show ?case
  proof (rule reflect_uniforms_Cons)
    fix ty
    let ?t1 = "js_set t (uniform_key (info_name u))
              \<lparr> type = ty,
                position = (case uniform_location l (info_name u) of
                              None \<Rightarrow> Null | Some loc \<Rightarrow> Location loc),
                info = u,
                unit = (if is_sampler gl u then Some (Suc tc) else None) \<rparr>"
    assume "reflect_uniforms gl l us (if is_sampler gl u then Suc tc else tc, ?t1) = Inr (tc', t')"
    then have "own t' k = own ?t1 k" using rest by (rule Cons.IH)
    also have "\<dots> = own t k" using ne by (auto simp: own_js_set)
    finally show ?thesis .
  qed
qed

lemma unit_at_binding: "js_get t k = JBinding b \<Longrightarrow> unit_at t k = unit b"
  by (simp add: unit_at_def)

lemma reflect_uniforms_units:
  "reflect_uniforms gl l us (tc, t) = Inr (tc', t') \<Longrightarrow> own t ''__proto__'' = None
     \<Longrightarrow> distinct (map (\<lambda>w. uniform_key (info_name w)) us)
     \<Longrightarrow> tc' = tc + length (filter (is_sampler gl) us)
       \<and> map (\<lambda>u. unit_at t' (uniform_key (info_name u))) (filter (is_sampler gl) us)
           = map Some [Suc tc ..< Suc (tc + length (filter (is_sampler gl) us))]"
proof (induction us arbitrary: tc t)
  case Nil
  then show ?case by simp
next
  case (Cons u us)
  from Cons.prems(3) have fresh: "uniform_key (info_name u) \<notin> set (map (\<lambda>w. uniform_key (info_name w)) us)"
    and rest: "distinct (map (\<lambda>w. uniform_key (info_name w)) us)" by auto
  from Cons.prems(1) show ?case
  proof (rule reflect_uniforms_Cons)
    fix ty
    let ?res = "\<lparr> type = ty,
                position = (case uniform_location l (info_name u) of
                              None \<Rightarrow> Null | Some loc \<Rightarrow> Location loc),
                info = u,
                unit = (if is_sampler gl u then Some (Suc tc) else None) \<rparr>"
    let ?t1 = "js_set t (uniform_key (info_name u)) ?res"
    let ?tc1 = "if is_sampler gl u then Suc tc else tc"
    let ?n = "length (filter (is_sampler gl) us)"
    assume run: "reflect_uniforms gl l us (?tc1, ?t1) = Inr (tc', t')"
    have wf: "own ?t1 ''__proto__'' = None" by (rule js_set_own_proto [OF Cons.prems(2)])
    from Cons.IH [OF run wf rest]
    have count: "tc' = ?tc1 + ?n"
      and units: "map (\<lambda>u. unit_at t' (uniform_key (info_name u))) (filter (is_sampler gl) us)
                    = map Some [Suc ?tc1 ..< Suc (?tc1 + ?n)]" by simp_all
    have "js_get ?t1 (uniform_key (info_name u)) = JBinding ?res"
      by (rule js_get_set_same [OF Cons.prems(2)])
    with run wf fresh have "js_get t' (uniform_key (info_name u)) = JBinding ?res"
      by (rule reflect_uniforms_keeps)
    then have head: "unit_at t' (uniform_key (info_name u)) = unit ?res"
      by (rule unit_at_binding)
    show ?thesis
    proof (cases "is_sampler gl u")
      case True
      have "[Suc tc ..< Suc (tc + Suc ?n)] = Suc tc # [Suc (Suc tc) ..< Suc (Suc tc + ?n)]"
        by (subst upt_conv_Cons) simp_all
      with True count units head show ?thesis by simp
    next
      case False
      with count units show ?thesis by simp
    qed
  qed
qed

lemma reflect_uniforms_stored:
  "reflect_uniforms gl l us (tc, t) = Inr (tc', t') \<Longrightarrow> own t ''__proto__'' = None
     \<Longrightarrow> distinct (map (\<lambda>w. uniform_key (info_name w)) us) \<Longrightarrow> u \<in> set us
     \<Longrightarrow> \<exists>b. js_get t' (uniform_key (info_name u)) = JBinding b \<and> info b = u
            \<and> getVariableType gl (info_type u) = Inr (type b)
            \<and> position b = (case uniform_location l (info_name u) of
                               None \<Rightarrow> Null | Some loc \<Rightarrow> Location loc)"
proof (induction us arbitrary: tc t)
  case Nil
  then show ?case by simp
next
  case (Cons v us)
  from Cons.prems(3) have fresh: "uniform_key (info_name v) \<notin> set (map (\<lambda>w. uniform_key (info_name w)) us)"
    and rest: "distinct (map (\<lambda>w. uniform_key (info_name w)) us)" by auto
  from Cons.prems(1) show ?case
  proof (rule reflect_uniforms_Cons)
    fix ty
    let ?res = "\<lparr> type = ty,
                position = (case uniform_location l (info_name v) of
                              None \<Rightarrow> Null | Some loc \<Rightarrow> Location loc),
                info = v,
                unit = (if is_sampler gl v then Some (Suc tc) else None) \<rparr>"
    let ?t1 = "js_set t (uniform_key (info_name v)) ?res"
    let ?tc1 = "if is_sampler gl v then Suc tc else tc"
    assume ty: "getVariableType gl (info_type v) = Inr ty"
    assume run: "reflect_uniforms gl l us (?tc1, ?t1) = Inr (tc', t')"
    have wf: "own ?t1 ''__proto__'' = None" by (rule js_set_own_proto [OF Cons.prems(2)])
    show ?thesis
    proof (cases "u = v")
      case True
      have "js_get ?t1 (uniform_key (info_name v)) = JBinding ?res"
        by (rule js_get_set_same [OF Cons.prems(2)])
      with run wf fresh have "js_get t' (uniform_key (info_name v)) = JBinding ?res"
        by (rule reflect_uniforms_keeps)
      with True ty show ?thesis by simp
    next
      case False
      with Cons.prems(4) have "u \<in> set us" by simp
      with run wf rest show ?thesis by (rule Cons.IH)
    qed
  qed
qed

lemma js_get_set_cases:
  "own t ''__proto__'' = None \<Longrightarrow> js_get (js_set t k' v) k = JBinding b
     \<Longrightarrow> b = v \<or> js_get t k = JBinding b"
  unfolding js_get_JBinding_iff own_js_set proto_js_set
  by (auto split: if_splits)

lemma empty_table_own [simp]: "own empty_table k = None"
  by (simp add: empty_table_def)

lemma empty_table_no_binding: "js_get empty_table k \<noteq> JBinding b"
  by (simp add: js_get_JBinding_iff empty_table_def)

lemma Program_constructor_uniforms:
  assumes "fst (Program_constructor ip gl) = Inr p"
  shows "reflect_uniforms gl (linker gl (vShaderSource ip) (fShaderSource ip))
           (reported_uniforms ip gl) (0, empty_table) = Inr (textureCount p, uniforms p)"
  using initProgram_Inr [OF assms [unfolded Program_constructor_def]]
  by (simp add: reported_uniforms_def)



lemma Program_constructor_units:
  assumes "fst (Program_constructor ip gl) = Inr p"
    and "distinct (map (\<lambda>w. uniform_key (info_name w)) (reported_uniforms ip gl))"
  shows "map (\<lambda>u. unit_at (uniforms p) (uniform_key (info_name u)))
             (filter (is_sampler gl) (reported_uniforms ip gl))
           = map Some [1 ..< Suc (length (filter (is_sampler gl) (reported_uniforms ip gl)))]
         \<and> textureCount p = length (filter (is_sampler gl) (reported_uniforms ip gl))"
  using reflect_uniforms_units [OF Program_constructor_uniforms [OF assms(1)] empty_table_own assms(2)]
  by simp

lemma Program_constructor_property [simp]:
  "property (snd (Program_constructor ip gl)) = property gl"
  unfolding Program_constructor_def initProgram_def loadShader_def Let_def
  by (simp add: issue_def split: sum.split prod.split)

text \<open>
  C1. When the keys of the reported uniforms are pairwise distinct, the texture units
  found under the keys of the sampler uniforms, read in the order of enumeration, are
  \<open>1, 2, ..., N\<close>, and the counter that started at 0 ends at \<open>N\<close>. A second instance
  built afterwards in the same context numbers its own samplers from 1 again.
\<close>

theorem sampler_units:
  assumes "fst (Program_constructor ip gl) = Inr p"
    and "distinct (map (\<lambda>w. uniform_key (info_name w)) (reported_uniforms ip gl))"
  shows "map (\<lambda>u. unit_at (uniforms p) (uniform_key (info_name u)))
             (filter (is_sampler gl) (reported_uniforms ip gl))
           = map Some [1 ..< Suc (length (filter (is_sampler gl) (reported_uniforms ip gl)))]
         \<and> textureCount p = length (filter (is_sampler gl) (reported_uniforms ip gl))
         \<and> (fst (Program_constructor ip2 (snd (Program_constructor ip gl))) = Inr p2
            \<and> distinct (map (\<lambda>w. uniform_key (info_name w))
                 (reported_uniforms ip2 (snd (Program_constructor ip gl))))
            \<longrightarrow> map (\<lambda>u. unit_at (uniforms p2) (uniform_key (info_name u)))
                  (filter (is_sampler (snd (Program_constructor ip gl)))
                     (reported_uniforms ip2 (snd (Program_constructor ip gl))))
                = map Some [1 ..< Suc (length (filter (is_sampler (snd (Program_constructor ip gl)))
                     (reported_uniforms ip2 (snd (Program_constructor ip gl)))))]
              \<and> textureCount p2 = length (filter (is_sampler (snd (Program_constructor ip gl)))
                     (reported_uniforms ip2 (snd (Program_constructor ip gl)))))"
  using Program_constructor_units [OF assms] Program_constructor_units [of ip2 "snd (Program_constructor ip gl)" p2]
  by blast

section \<open>The example, evaluated\<close>

lemma webgl_getVariableType:
  "getVariableType (webgl l) 35676 = Inr ''FLOAT_MAT4''"
  "getVariableType (webgl l) 35678 = Inr ''SAMPLER_2D''"
  "getVariableType (webgl l) 35680 = Inr ''SAMPLER_CUBE''"
  "getVariableType (webgl l) 5126 = Inr ''FLOAT''"
  "getVariableType (webgl l) 35665 = Inr ''FLOAT_VEC3''"
  "getVariableType (webgl l) 35664 = Inr ''FLOAT_VEC2''"
  "getVariableType (webgl l) 35685 = Inl (Error ''get type failed ' + value'')"
  "getVariableType (webgl l) 35679 = Inl (Error ''get type failed ' + value'')"
  by (simp_all add: getVariableType_def types_def webgl_def webgl_properties_def)

lemma webgl_fields:
  "compile_status (webgl l) st src = (src \<noteq> ''#error'')"
  "shader_info_log (webgl l) st src = ''ERROR: 0:1: unexpected directive''"
  "linker (webgl l) vs fs = l"
  "next_object (webgl l) = 1"
  "calls (webgl l) = []"
  by (simp_all add: webgl_def)

lemma webgl_has_uploads: "has_uploads (webgl l)"
  by (simp add: has_uploads_def upload_methods_def webgl_def webgl_properties_def)

lemma uniform_key_demo:
  "uniform_key ''uPMatrix'' = ''uPMatrix''"
  "uniform_key ''uSampler'' = ''uSampler''"
  "uniform_key ''uWeights[0]'' = ''uWeights''"
  "uniform_key ''uEnv'' = ''uEnv''"
  "uniform_key ''a[0].b[0]'' = ''a.b[0]''"
  by (simp_all add: uniform_key_def js_indexOf_def)

lemma demo_reflect_uniforms:
  "reflect_uniforms (webgl l) demo_link (active_uniforms demo_link) (0, empty_table) =
     Inr (2, demo_uniforms)"
  by (simp add: demo_link_def webgl_getVariableType demo_uniforms_def
      allocate_unit_def parseType_types uniform_key_demo js_set_def empty_table_def numeral_2_eq_2)

lemma demo_reflect_attributes:
  "reflect_attributes (webgl l) demo_link (active_attributes demo_link) empty_table =
     Inr demo_attributes"
  by (simp add: demo_link_def webgl_getVariableType demo_attributes_def
      js_set_def empty_table_def)

lemma demo_sources_fields:
  "fShaderSource demo_sources = ''void main() {}''"
  "vShaderSource demo_sources = ''void main() {}''"
  by (simp_all add: demo_sources_def)

lemma demo_constructed:
  "Program_constructor demo_sources (webgl demo_link) =
     (Inr \<lparr> glProgram = 3, uniforms = demo_uniforms, attributes = demo_attributes,
            textureCount = 2,
            this_fShaderSource = ''void main() {}'', this_vShaderSource = ''void main() {}'' \<rparr>,
      (webgl demo_link)\<lparr> next_object := 4,
         calls := [CreateShader FRAGMENT_SHADER 1, ShaderSource 1 ''void main() {}'',
                   CompileShader 1, CreateShader VERTEX_SHADER 2,
                   ShaderSource 2 ''void main() {}'', CompileShader 2, CreateProgram 3,
                   AttachShader 3 2, AttachShader 3 1, LinkProgram 3] \<rparr>)"
proof -
  have c: "compile_status (webgl demo_link) FRAGMENT_SHADER ''void main() {}''"
    "compile_status (webgl demo_link) VERTEX_SHADER ''void main() {}''"
    by (simp_all add: webgl_fields)
  have l: "link_status (linker (webgl demo_link) ''void main() {}'' ''void main() {}'')"
    by (simp add: webgl_fields demo_link_def)
  show ?thesis
    unfolding Program_constructor_def demo_sources_fields
    using initProgram_reflected [OF c l, of 0] initProgram_calls [OF c, of 0]
    by (simp add: prod_eq_iff webgl_fields demo_reflect_uniforms demo_reflect_attributes
        numeral_3_eq_3 numeral_2_eq_2)
qed

lemma demo_program_eq:
  "demo_program =
     \<lparr> glProgram = 3, uniforms = demo_uniforms, attributes = demo_attributes,
       textureCount = 2,
       this_fShaderSource = ''void main() {}'', this_vShaderSource = ''void main() {}'' \<rparr>"
  by (simp add: demo_program_def demo_constructed)

lemma demo_gl_eq:
  "demo_gl =
     (webgl demo_link)\<lparr> next_object := 4,
         calls := [CreateShader FRAGMENT_SHADER 1, ShaderSource 1 ''void main() {}'',
                   CompileShader 1, CreateShader VERTEX_SHADER 2,
                   ShaderSource 2 ''void main() {}'', CompileShader 2, CreateProgram 3,
                   AttachShader 3 2, AttachShader 3 1, LinkProgram 3] \<rparr>"
  by (simp add: demo_gl_def demo_constructed)

lemma demo_ok: "fst (Program_constructor demo_sources (webgl demo_link)) = Inr demo_program"
  by (simp add: demo_program_def demo_constructed)

lemma demo_ok2: "fst (Program_constructor demo_sources demo_gl) = Inr demo_program2"
proof -
  have c: "compile_status demo_gl FRAGMENT_SHADER ''void main() {}''"
    "compile_status demo_gl VERTEX_SHADER ''void main() {}''"
    by (simp_all add: demo_gl_eq webgl_fields)
  have l: "link_status (linker demo_gl ''void main() {}'' ''void main() {}'')"
    by (simp add: demo_gl_eq webgl_fields demo_link_def)
  have "\<exists>q. fst (Program_constructor demo_sources demo_gl) = Inr q"
    unfolding Program_constructor_def demo_sources_fields
    using initProgram_reflected [OF c l, of 0]
    by (simp add: demo_gl_eq webgl_fields demo_reflect_uniforms demo_reflect_attributes)
  then show ?thesis by (auto simp: demo_program2_def)
qed

lemma demo_reported:
  "reported_uniforms demo_sources (webgl demo_link) = active_uniforms demo_link"
  "reported_uniforms demo_sources demo_gl = active_uniforms demo_link"
  by (simp_all add: reported_uniforms_def demo_gl_eq webgl_fields)

lemma demo_keys:
  "map (\<lambda>w. uniform_key (info_name w)) (active_uniforms demo_link)
     = [''uPMatrix'', ''uSampler'', ''uWeights'', ''uEnv'']"
  by (simp add: demo_link_def uniform_key_demo)

lemma demo_distinct:
  "distinct (map (\<lambda>w. uniform_key (info_name w)) (active_uniforms demo_link))"
  unfolding demo_keys by simp

lemma is_sampler_cong: "property gl' = property gl \<Longrightarrow> is_sampler gl' u = is_sampler gl u"
  by (simp add: is_sampler_def getVariableType_cong [of gl' gl])

lemma demo_samplers:
  "filter (is_sampler (webgl l)) (active_uniforms demo_link) =
     [\<lparr> info_name = ''uSampler'', info_size = 1, info_type = 35678 \<rparr>,
      \<lparr> info_name = ''uEnv'', info_size = 1, info_type = 35680 \<rparr>]"
  by (simp add: demo_link_def is_sampler_def webgl_getVariableType)

lemma demo_gl_sampler: "is_sampler demo_gl = is_sampler (webgl demo_link)"
  by (rule ext, rule is_sampler_cong) (simp add: demo_gl_eq)

text \<open>
  The example has four uniforms, two of them samplers; both instances number them 1 and 2.
\<close>

theorem sampler_units_witness:
  "fst (Program_constructor demo_sources (webgl demo_link)) = Inr demo_program
   \<and> distinct (map (\<lambda>w. uniform_key (info_name w))
        (reported_uniforms demo_sources (webgl demo_link)))
   \<and> fst (Program_constructor demo_sources demo_gl) = Inr demo_program2
   \<and> distinct (map (\<lambda>w. uniform_key (info_name w)) (reported_uniforms demo_sources demo_gl))
   \<and> map (unit_at (uniforms demo_program)) [''uSampler'', ''uEnv''] = [Some 1, Some 2]
   \<and> textureCount demo_program = 2
   \<and> map (unit_at (uniforms demo_program2)) [''uSampler'', ''uEnv''] = [Some 1, Some 2]
   \<and> textureCount demo_program2 = 2"
proof -
  have ok: "fst (Program_constructor demo_sources (webgl demo_link)) = Inr demo_program"
    by (rule demo_ok)
  have keys: "distinct (map (\<lambda>w. uniform_key (info_name w))
        (reported_uniforms demo_sources (webgl demo_link)))"
    by (simp add: demo_reported demo_distinct)
  have ok2: "fst (Program_constructor demo_sources (snd (Program_constructor demo_sources (webgl demo_link)))) = Inr demo_program2"
    using demo_ok2 by (simp add: demo_gl_def)
  have keys2: "distinct (map (\<lambda>w. uniform_key (info_name w))
        (reported_uniforms demo_sources (snd (Program_constructor demo_sources (webgl demo_link)))))"
    using demo_distinct demo_reported(2) by (simp add: demo_gl_def)
  have up: "[Suc 0 ..< 3] = [Suc 0, Suc (Suc 0)]" by (simp add: upt_rec)
  note th = sampler_units [OF ok keys, of demo_sources demo_program2]
  from th ok2 keys2
  have "map (unit_at (uniforms demo_program)) [''uSampler'', ''uEnv''] = [Some 1, Some 2]
      \<and> textureCount demo_program = 2
      \<and> map (unit_at (uniforms demo_program2)) [''uSampler'', ''uEnv''] = [Some 1, Some 2]
      \<and> textureCount demo_program2 = 2"
    by (simp add: demo_reported demo_gl_def [symmetric] demo_gl_sampler demo_samplers
        uniform_key_demo up)
  then show ?thesis
    using ok keys demo_ok2 demo_distinct
    by (simp add: demo_reported)
qed

section \<open>The dispatcher\<close>

lemma js_nat_string_digit:
  "js_nat_string (Suc 0) = ''1''" "js_nat_string 1 = ''1''" "js_nat_string 2 = ''2''" "js_nat_string 3 = ''3''"
  "js_nat_string 4 = ''4''"
  by (simp_all add: js_nat_string.simps)

lemma method_all:
  "list_all (\<lambda>t.
       (if baseVecType (parseType t) = ''VEC'' then
          ''uniform'' @ js_number_string (vecSize (parseType t))
             @ (if baseType (parseType t) = ''FLOAT'' then ''f'' else ''i'') @ ''v''
        else if baseVecType (parseType t) = ''MAT'' then
          ''uniformMatrix'' @ js_number_string (vecSize (parseType t)) @ ''fv''
        else ''uniform1fv'') \<in> set upload_methods) types"
  unfolding types_def
  by (simp add: parseType_types js_number_string_def js_nat_string_digit upload_methods_def)

lemma has_uploads_method:
  "has_uploads gl \<Longrightarrow> m \<in> set upload_methods \<Longrightarrow> property gl m = GLFunction"
  by (simp add: has_uploads_def list_all_iff)

lemma uniform_reflected:
  assumes b: "js_get (uniforms p) name = JBinding b"
    and ty: "type b \<in> set types"
    and up: "has_uploads gl"
  shows "uniform p name v gl =
     (Inr (),
      gl\<lparr>calls := calls gl @
        (if baseVecType (parseType (type b)) = ''VEC'' then
           [CallByName
              (''uniform'' @ js_number_string (vecSize (parseType (type b)))
                 @ (if baseType (parseType (type b)) = ''FLOAT'' then ''f'' else ''i'') @ ''v'')
              [APosition (position b), AValue v]]
         else if baseVecType (parseType (type b)) = ''MAT'' then
           [CallByName
              (''uniformMatrix'' @ js_number_string (vecSize (parseType (type b))) @ ''fv'')
              [APosition (position b), ABool False, AValue v]]
         else if baseVecType (parseType (type b)) = ''2D'' then
           [ActiveTexture (property gl (''TEXTURE'' @ js_template (unit b))),
            BindTexture TEXTURE_2D v, Uniform1i (position b) (unit b)]
         else
           [ActiveTexture (property gl (''TEXTURE'' @ js_template (unit b))),
            BindTexture TEXTURE_CUBE_MAP v, Uniform1i (position b) (unit b)])\<rparr>)"
proof -
  note handled = types_all [OF handled_all ty]
  note m = has_uploads_method [OF up types_all [OF method_all ty]]
  show ?thesis
  proof (cases "baseVecType (parseType (type b)) = ''VEC''")
    case True
    with m b show ?thesis
      by (simp add: uniform_def call_by_name_def issue_def Let_def)
  next
    case False
    note notvec = this
    show ?thesis
    proof (cases "baseVecType (parseType (type b)) = ''MAT''")
      case True
      with m b notvec show ?thesis
        by (simp add: uniform_def call_by_name_def issue_def Let_def)
    next
      case False
      with handled b notvec show ?thesis
        by (auto simp: uniform_def issue_def Let_def)
    qed
  qed
qed

section \<open>Texture units\<close>








text \<open>
  C9. A binding whose type is one of the seventeen tokens has one of the four handled
  categories, so the branch that raises \<open>baseVecType invalid\<close> is not taken, and
  \<open>uniform\<close> returns normally for it in a context that has the WebGL upload entry
  points.
\<close>

theorem uniform_supported_returns:
  assumes "js_get (uniforms p) name = JBinding b"
    and "type b \<in> set types"
    and "has_uploads gl"
  shows "baseVecType (parseType (type b)) \<in> {''VEC'', ''MAT'', ''2D'', ''CUB''}
       \<and> fst (uniform p name v gl) = Inr ()
       \<and> fst (uniform p name v gl) \<noteq> Inl (Error (''baseVecType invalid '' @ baseVecType (parseType (type b))))"
  using types_all [OF handled_all assms(2)] uniform_reflected [OF assms, of v]
  by simp

lemma demo_lookup:
  "js_get (uniforms demo_program) ''uPMatrix'' =
     JBinding \<lparr> type = ''FLOAT_MAT4'', position = Location 10,
                info = \<lparr> info_name = ''uPMatrix'', info_size = 1, info_type = 35676 \<rparr>,
                unit = None \<rparr>"
  "js_get (uniforms demo_program) ''uSampler'' =
     JBinding \<lparr> type = ''SAMPLER_2D'', position = Location 11,
                info = \<lparr> info_name = ''uSampler'', info_size = 1, info_type = 35678 \<rparr>,
                unit = Some 1 \<rparr>"
  "js_get (uniforms demo_program) ''uWeights'' =
     JBinding \<lparr> type = ''FLOAT'', position = Location 12,
                info = \<lparr> info_name = ''uWeights[0]'', info_size = 4, info_type = 5126 \<rparr>,
                unit = None \<rparr>"
  "js_get (uniforms demo_program) ''uEnv'' =
     JBinding \<lparr> type = ''SAMPLER_CUBE'', position = Location 16,
                info = \<lparr> info_name = ''uEnv'', info_size = 1, info_type = 35680 \<rparr>,
                unit = Some 2 \<rparr>"
  "js_get (uniforms demo_program) ''uWeights[0]'' = JUndefined"
  "js_get (uniforms demo_program) ''toString'' = JOther True"
  "js_get (attributes demo_program) ''aUV'' =
     JBinding \<lparr> type = ''FLOAT_VEC2'', position = Index 1,
                info = \<lparr> info_name = ''aUV'', info_size = 1, info_type = 35664 \<rparr>,
                unit = None \<rparr>"
  "js_get (attributes demo_program) ''constructor'' = JOther True"
  by (simp_all add: demo_program_eq demo_uniforms_def demo_attributes_def js_get_def
      object_prototype_keys_def)

lemma demo_gl_fields:
  "has_uploads demo_gl"
  "calls demo_gl =
     [CreateShader FRAGMENT_SHADER 1, ShaderSource 1 ''void main() {}'',
      CompileShader 1, CreateShader VERTEX_SHADER 2,
      ShaderSource 2 ''void main() {}'', CompileShader 2, CreateProgram 3,
      AttachShader 3 2, AttachShader 3 1, LinkProgram 3]"
  "property demo_gl ''TEXTURE1'' = GLNumber 33985"
  "property demo_gl ''TEXTURE2'' = GLNumber 33986"
  "property demo_gl ''FLOAT'' = GLNumber 5126"
  using webgl_has_uploads [of demo_link]
  by (simp_all add: demo_gl_eq has_uploads_def webgl_def webgl_properties_def)

lemma has_texture_units_calls [simp]:
  "has_texture_units (gl\<lparr>calls := c\<rparr>) = has_texture_units gl"
  by (simp add: has_texture_units_def)

lemma has_texture_units_next_object [simp]:
  "has_texture_units (gl\<lparr>next_object := n\<rparr>) = has_texture_units gl"
  by (simp add: has_texture_units_def)



text \<open>The matrix uniform of the example is of a supported type and is set without an error.\<close>

theorem uniform_supported_returns_witness:
  "js_get (uniforms demo_program) ''uPMatrix'' =
       JBinding \<lparr> type = ''FLOAT_MAT4'', position = Location 10,
                  info = \<lparr> info_name = ''uPMatrix'', info_size = 1, info_type = 35676 \<rparr>,
                  unit = None \<rparr>
   \<and> ''FLOAT_MAT4'' \<in> set types
   \<and> has_uploads demo_gl
   \<and> baseVecType (parseType ''FLOAT_MAT4'') = ''MAT''
   \<and> fst (uniform demo_program ''uPMatrix'' 5 demo_gl) = Inr ()"
proof -
  have t: "type \<lparr> type = ''FLOAT_MAT4'', position = Location 10,
                  info = \<lparr> info_name = ''uPMatrix'', info_size = 1, info_type = 35676 \<rparr>,
                  unit = None \<rparr> \<in> set types"
    by (simp add: types_def)
  from uniform_supported_returns [OF demo_lookup(1) t demo_gl_fields(1), of 5]
  show ?thesis
    using demo_lookup(1) demo_gl_fields(1) t by (simp add: parseType_types)
qed

section \<open>The attribute binder\<close>

lemma attribute_resolved:
  assumes "js_get (attributes p) name = JBinding b"
  shows "attribute p name buffer stride offset gl =
     (Inr (),
      gl\<lparr>calls := calls gl @
        [BindBuffer ARRAY_BUFFER buffer,
         VertexAttribPointer (position b) (vecSize (parseType (type b)))
           (property gl (baseType (parseType (type b)))) False stride offset,
         EnableVertexAttribArray (position b)]\<rparr>)"
  using assms by (simp add: attribute_def issue_def Let_def)

text \<open>
  On each of the seventeen tokens the parser's arity and base type are those of the
  specification's descriptor.
\<close>

lemma layout_all:
  "list_all (\<lambda>t. vecSize (parseType t) = spec_arity t
               \<and> baseType (parseType t) = spec_baseType t) types"
  unfolding types_def
  by (simp add: parseType_types spec_arity_def spec_baseType_def spec_parseType_def
      trailing_digit_def)

lemma layout_table:
  "map (\<lambda>t. (t, vecSize (parseType t), baseType (parseType t))) types =
     [(''FLOAT'', Some 1, ''FLOAT''), (''FLOAT_VEC2'', Some 2, ''FLOAT''),
      (''FLOAT_VEC3'', Some 3, ''FLOAT''), (''FLOAT_VEC4'', Some 4, ''FLOAT''),
      (''FLOAT_MAT2'', Some 2, ''FLOAT''), (''FLOAT_MAT3'', Some 3, ''FLOAT''),
      (''FLOAT_MAT4'', Some 4, ''FLOAT''),
      (''INT'', Some 1, ''INT''), (''INT_VEC2'', Some 2, ''INT''),
      (''INT_VEC3'', Some 3, ''INT''), (''INT_VEC4'', Some 4, ''INT''),
      (''BOOL'', Some 1, ''BOOL''), (''BOOL_VEC2'', Some 2, ''BOOL''),
      (''BOOL_VEC3'', Some 3, ''BOOL''), (''BOOL_VEC4'', Some 4, ''BOOL''),
      (''SAMPLER_2D'', None, ''SAMPLER''), (''SAMPLER_CUBE'', None, ''SAMPLER'')]"
  unfolding types_def by (simp add: parseType_types)

lemma reflect_attributes_typed:
  "reflect_attributes gl l as t = Inr t' \<Longrightarrow> own t ''__proto__'' = None
     \<Longrightarrow> (\<And>k b. js_get t k = JBinding b \<Longrightarrow> type b \<in> set types)
     \<Longrightarrow> js_get t' k = JBinding b \<Longrightarrow> type b \<in> set types"
proof (induction as arbitrary: t)
  case Nil
  then show ?case by simp
next
  case (Cons a as)
  show ?case
  proof (cases "getVariableType gl (info_type a)")
    case (Inl e)
    with Cons.prems(1) show ?thesis by simp
  next
    case (Inr ty)
    let ?res = "\<lparr> type = ty, position = Index (attrib_location l (info_name a)),
                  info = a, unit = None \<rparr>"
    let ?t1 = "js_set t (info_name a) ?res"
    from Cons.prems(1) Inr have run: "reflect_attributes gl l as ?t1 = Inr t'"
      by (simp add: Let_def)
    have wf: "own ?t1 ''__proto__'' = None" by (rule js_set_own_proto [OF Cons.prems(2)])
    have typed: "type c \<in> set types" if "js_get ?t1 j = JBinding c" for j c
    proof -
      from js_get_set_cases [OF Cons.prems(2) that]
      show ?thesis
      proof
        assume "c = ?res"
        with getVariableType_types [OF Inr] show ?thesis by simp
      next
        assume "js_get t j = JBinding c"
        then show ?thesis by (rule Cons.prems(3))
      qed
    qed
    from run wf typed Cons.prems(4) show ?thesis by (rule Cons.IH)
  qed
qed

lemma Program_constructor_attribute_typed:
  assumes "fst (Program_constructor ip gl) = Inr p" and "js_get (attributes p) k = JBinding b"
  shows "type b \<in> set types"
proof -
  from initProgram_Inr [OF assms(1) [unfolded Program_constructor_def]]
  have run: "reflect_attributes gl (linker gl (vShaderSource ip) (fShaderSource ip))
               (active_attributes (linker gl (vShaderSource ip) (fShaderSource ip)))
               empty_table = Inr (attributes p)"
    by simp
  have none: "type c \<in> set types" if "js_get empty_table j = JBinding c" for j c
    using that by (simp add: empty_table_no_binding)
  from run empty_table_own none assms(2) show ?thesis
    by (rule reflect_attributes_typed)
qed

text \<open>
  C8. For a program the constructor has returned and an attribute name that resolves to
  a binding, the binding's type is one of the seventeen tokens and \<open>attribute\<close> issues
  exactly three calls, in this order: it binds the buffer to the array-buffer target;
  it describes the layout at the binding's position with the arity of the token (1 for a
  bare scalar, the trailing digit of a vector or matrix), the context's constant named
  by the token's base type, \<open>false\<close>, the stride and the offset; it enables the
  position. Nothing else of the context changes.
\<close>

theorem attribute_binds:
  assumes "fst (Program_constructor ip gl0) = Inr p"
    and "js_get (attributes p) name = JBinding b"
  shows "type b \<in> set types
       \<and> (type b, spec_arity (type b), spec_baseType (type b)) \<in> set
           [(''FLOAT'', Some 1, ''FLOAT''), (''FLOAT_VEC2'', Some 2, ''FLOAT''),
            (''FLOAT_VEC3'', Some 3, ''FLOAT''), (''FLOAT_VEC4'', Some 4, ''FLOAT''),
            (''FLOAT_MAT2'', Some 2, ''FLOAT''), (''FLOAT_MAT3'', Some 3, ''FLOAT''),
            (''FLOAT_MAT4'', Some 4, ''FLOAT''),
            (''INT'', Some 1, ''INT''), (''INT_VEC2'', Some 2, ''INT''),
            (''INT_VEC3'', Some 3, ''INT''), (''INT_VEC4'', Some 4, ''INT''),
            (''BOOL'', Some 1, ''BOOL''), (''BOOL_VEC2'', Some 2, ''BOOL''),
            (''BOOL_VEC3'', Some 3, ''BOOL''), (''BOOL_VEC4'', Some 4, ''BOOL''),
            (''SAMPLER_2D'', None, ''SAMPLER''), (''SAMPLER_CUBE'', None, ''SAMPLER'')]
       \<and> attribute p name buffer stride offset gl =
           (Inr (),
            gl\<lparr>calls := calls gl @
              [BindBuffer ARRAY_BUFFER buffer,
               VertexAttribPointer (position b) (spec_arity (type b))
                 (property gl (spec_baseType (type b))) False stride offset,
               EnableVertexAttribArray (position b)]\<rparr>)"
proof -
  have ty: "type b \<in> set types" using assms by (rule Program_constructor_attribute_typed)
  note l = types_all [OF layout_all ty]
  have "(type b, vecSize (parseType (type b)), baseType (parseType (type b)))
          \<in> set (map (\<lambda>t. (t, vecSize (parseType t), baseType (parseType t))) types)"
    using ty by simp
  then have tab: "(type b, spec_arity (type b), spec_baseType (type b)) \<in> set
           [(''FLOAT'', Some 1, ''FLOAT''), (''FLOAT_VEC2'', Some 2, ''FLOAT''),
            (''FLOAT_VEC3'', Some 3, ''FLOAT''), (''FLOAT_VEC4'', Some 4, ''FLOAT''),
            (''FLOAT_MAT2'', Some 2, ''FLOAT''), (''FLOAT_MAT3'', Some 3, ''FLOAT''),
            (''FLOAT_MAT4'', Some 4, ''FLOAT''),
            (''INT'', Some 1, ''INT''), (''INT_VEC2'', Some 2, ''INT''),
            (''INT_VEC3'', Some 3, ''INT''), (''INT_VEC4'', Some 4, ''INT''),
            (''BOOL'', Some 1, ''BOOL''), (''BOOL_VEC2'', Some 2, ''BOOL''),
            (''BOOL_VEC3'', Some 3, ''BOOL''), (''BOOL_VEC4'', Some 4, ''BOOL''),
            (''SAMPLER_2D'', None, ''SAMPLER''), (''SAMPLER_CUBE'', None, ''SAMPLER'')]"
    unfolding layout_table using l by (simp only:)
  from attribute_resolved [OF assms(2), of buffer stride offset gl] l
  have "attribute p name buffer stride offset gl =
           (Inr (),
            gl\<lparr>calls := calls gl @
              [BindBuffer ARRAY_BUFFER buffer,
               VertexAttribPointer (position b) (spec_arity (type b))
                 (property gl (spec_baseType (type b))) False stride offset,
               EnableVertexAttribArray (position b)]\<rparr>)"
    by (simp only:)
  with ty tab show ?thesis by (simp only: simp_thms)
qed

lemma demo_lookup_aPosition:
  "js_get (attributes demo_program) ''aPosition'' =
     JBinding \<lparr> type = ''FLOAT_VEC3'', position = Index 0,
                info = \<lparr> info_name = ''aPosition'', info_size = 1, info_type = 35665 \<rparr>,
                unit = None \<rparr>"
  by (simp add: demo_program_eq demo_attributes_def js_get_def)

text \<open>
  The two attributes of the example: \<open>aPosition\<close>, three floats at position 0, and
  \<open>aUV\<close>, two floats at position 1.
\<close>

theorem attribute_binds_witness:
  "fst (Program_constructor demo_sources (webgl demo_link)) = Inr demo_program
   \<and> js_get (attributes demo_program) ''aPosition'' =
       JBinding \<lparr> type = ''FLOAT_VEC3'', position = Index 0,
                  info = \<lparr> info_name = ''aPosition'', info_size = 1, info_type = 35665 \<rparr>,
                  unit = None \<rparr>
   \<and> attribute demo_program ''aPosition'' 6 32 0 demo_gl =
       (Inr (),
        demo_gl\<lparr>calls := calls demo_gl @
          [BindBuffer ARRAY_BUFFER 6,
           VertexAttribPointer (Index 0) (Some 3) (GLNumber 5126) False 32 0,
           EnableVertexAttribArray (Index 0)]\<rparr>)
   \<and> js_get (attributes demo_program) ''aUV'' =
       JBinding \<lparr> type = ''FLOAT_VEC2'', position = Index 1,
                  info = \<lparr> info_name = ''aUV'', info_size = 1, info_type = 35664 \<rparr>,
                  unit = None \<rparr>
   \<and> attribute demo_program ''aUV'' 7 20 12 demo_gl =
       (Inr (),
        demo_gl\<lparr>calls := calls demo_gl @
          [BindBuffer ARRAY_BUFFER 7,
           VertexAttribPointer (Index 1) (Some 2) (GLNumber 5126) False 20 12,
           EnableVertexAttribArray (Index 1)]\<rparr>)"
proof -
  have sp: "spec_arity ''FLOAT_VEC3'' = Some 3" "spec_baseType ''FLOAT_VEC3'' = ''FLOAT''"
    "spec_arity ''FLOAT_VEC2'' = Some 2" "spec_baseType ''FLOAT_VEC2'' = ''FLOAT''"
    by (simp_all add: spec_arity_def spec_baseType_def spec_parseType_def trailing_digit_def)
  have a: "attribute demo_program ''aPosition'' 6 32 0 demo_gl =
       (Inr (),
        demo_gl\<lparr>calls := calls demo_gl @
          [BindBuffer ARRAY_BUFFER 6,
           VertexAttribPointer (Index 0) (Some 3) (GLNumber 5126) False 32 0,
           EnableVertexAttribArray (Index 0)]\<rparr>)"
    using attribute_binds [OF demo_ok demo_lookup_aPosition, of 6 32 0 demo_gl]
    by (elim conjE) (simp add: sp demo_gl_fields)
  have b: "attribute demo_program ''aUV'' 7 20 12 demo_gl =
       (Inr (),
        demo_gl\<lparr>calls := calls demo_gl @
          [BindBuffer ARRAY_BUFFER 7,
           VertexAttribPointer (Index 1) (Some 2) (GLNumber 5126) False 20 12,
           EnableVertexAttribArray (Index 1)]\<rparr>)"
    using attribute_binds [OF demo_ok demo_lookup(7), of 7 20 12 demo_gl]
    by (elim conjE) (simp add: sp demo_gl_fields)
  show ?thesis
    using demo_ok demo_lookup_aPosition demo_lookup(7) a b by simp
qed

section \<open>Names that resolve to no binding\<close>

lemma uniform_absent:
  assumes "own (uniforms p) name = None" and "name \<notin> set inherited_keys"
  shows "uniform p name v gl = (Inr (), gl)"
  using js_get_absent [OF assms] by (simp add: uniform_def)

lemma attribute_absent:
  assumes "own (attributes p) name = None" and "name \<notin> set inherited_keys"
  shows "attribute p name buffer stride offset gl = (Inr (), gl)"
  using js_get_absent [OF assms] by (simp add: attribute_def)

text \<open>
  C5 at a failing input. The example's tables hold no entry \<open>toString\<close> or
  \<open>constructor\<close>, yet both names are found on the prototype of the table, the test
  of the lookup succeeds, and parsing the type of what was found raises.
\<close>

theorem inherited_name_raises:
  "own (uniforms demo_program) ''toString'' = None
   \<and> uniform demo_program ''toString'' 5 demo_gl = (Inl TypeError, demo_gl)
   \<and> own (attributes demo_program) ''constructor'' = None
   \<and> attribute demo_program ''constructor'' 7 20 12 demo_gl = (Inl TypeError, demo_gl)"
  by (simp add: uniform_def attribute_def demo_lookup)
     (simp add: demo_program_eq demo_uniforms_def demo_attributes_def)

section \<open>destructor\<close>

lemma has_uploads_calls [simp]: "has_uploads (gl\<lparr>calls := c\<rparr>) = has_uploads gl"
  by (simp add: has_uploads_def)

text \<open>
  C10. \<open>destructor\<close> returns the program as it was and adds the one call that deletes
  the program handle. A later \<open>uniform\<close> on a name that resolves to a binding of a
  supported type returns normally and issues, after the deletion, the same calls it
  would have issued before; a later \<open>attribute\<close> issues its three calls.
\<close>

theorem destructor_frame:
  "fst (destructor p gl) = p
   \<and> snd (destructor p gl) = gl\<lparr>calls := calls gl @ [DeleteProgram (glProgram p)]\<rparr>
   \<and> (js_get (uniforms p) name = JBinding b \<and> type b \<in> set types \<and> has_uploads gl \<longrightarrow>
        fst (uniform (fst (destructor p gl)) name v (snd (destructor p gl))) = Inr ()
        \<and> calls (snd (uniform (fst (destructor p gl)) name v (snd (destructor p gl))))
            = calls gl @ [DeleteProgram (glProgram p)]
                @ drop (length (calls gl)) (calls (snd (uniform p name v gl)))
        \<and> drop (length (calls gl)) (calls (snd (uniform p name v gl))) \<noteq> [])
   \<and> (js_get (attributes p) aname = JBinding a \<longrightarrow>
        attribute (fst (destructor p gl)) aname buffer stride offset (snd (destructor p gl))
          = (Inr (),
             gl\<lparr>calls := calls gl @
               [DeleteProgram (glProgram p),
                BindBuffer ARRAY_BUFFER buffer,
                VertexAttribPointer (position a) (vecSize (parseType (type a)))
                  (property gl (baseType (parseType (type a)))) False stride offset,
                EnableVertexAttribArray (position a)]\<rparr>))"
proof -
  let ?gl' = "gl\<lparr>calls := calls gl @ [DeleteProgram (glProgram p)]\<rparr>"
  have d: "destructor p gl = (p, ?gl')" by (simp add: destructor_def issue_def)
  have u: "fst (uniform p name v ?gl') = Inr ()
        \<and> calls (snd (uniform p name v ?gl'))
            = calls gl @ [DeleteProgram (glProgram p)]
                @ drop (length (calls gl)) (calls (snd (uniform p name v gl)))
        \<and> drop (length (calls gl)) (calls (snd (uniform p name v gl))) \<noteq> []"
    if b: "js_get (uniforms p) name = JBinding b" and ty: "type b \<in> set types"
      and up: "has_uploads gl"
  proof -
    have up': "has_uploads ?gl'" using up by simp
    show ?thesis
      unfolding uniform_reflected [OF b ty up, of v] uniform_reflected [OF b ty up', of v]
      by simp
  qed
  have a: "attribute p aname buffer stride offset ?gl'
          = (Inr (),
             gl\<lparr>calls := calls gl @
               [DeleteProgram (glProgram p),
                BindBuffer ARRAY_BUFFER buffer,
                VertexAttribPointer (position a) (vecSize (parseType (type a)))
                  (property gl (baseType (parseType (type a)))) False stride offset,
                EnableVertexAttribArray (position a)]\<rparr>)"
    if "js_get (attributes p) aname = JBinding a"
    using attribute_resolved [OF that, of buffer stride offset ?gl'] by simp
  show ?thesis
    unfolding d using u a by simp
qed

text \<open>
  The example after \<open>destructor\<close>: the sampler uniform and the attribute \<open>aUV\<close>
  are dispatched in full behind the deletion.
\<close>

theorem destructor_frame_witness:
  "fst (destructor demo_program demo_gl) = demo_program
   \<and> calls (snd (destructor demo_program demo_gl)) = calls demo_gl @ [DeleteProgram 3]
   \<and> js_get (uniforms demo_program) ''uSampler'' =
       JBinding \<lparr> type = ''SAMPLER_2D'', position = Location 11,
                  info = \<lparr> info_name = ''uSampler'', info_size = 1, info_type = 35678 \<rparr>,
                  unit = Some 1 \<rparr>
   \<and> ''SAMPLER_2D'' \<in> set types
   \<and> has_uploads demo_gl
   \<and> fst (uniform (fst (destructor demo_program demo_gl)) ''uSampler'' 5
            (snd (destructor demo_program demo_gl))) = Inr ()
   \<and> calls (snd (uniform (fst (destructor demo_program demo_gl)) ''uSampler'' 5
            (snd (destructor demo_program demo_gl))))
       = calls demo_gl @
           [DeleteProgram 3, ActiveTexture (GLNumber 33985), BindTexture TEXTURE_2D 5,
            Uniform1i (Location 11) (Some 1)]
   \<and> js_get (attributes demo_program) ''aUV'' =
       JBinding \<lparr> type = ''FLOAT_VEC2'', position = Index 1,
                  info = \<lparr> info_name = ''aUV'', info_size = 1, info_type = 35664 \<rparr>,
                  unit = None \<rparr>
   \<and> calls (snd (attribute (fst (destructor demo_program demo_gl)) ''aUV'' 7 20 12
            (snd (destructor demo_program demo_gl))))
       = calls demo_gl @
           [DeleteProgram 3, BindBuffer ARRAY_BUFFER 7,
            VertexAttribPointer (Index 1) (Some 2) (GLNumber 5126) False 20 12,
            EnableVertexAttribArray (Index 1)]"
proof -
  have t: "''SAMPLER_2D'' \<in> set types" by (simp add: types_def)
  have g: "glProgram demo_program = 3" by (simp add: demo_program_eq)
  have before: "uniform demo_program ''uSampler'' 5 demo_gl =
       (Inr (), demo_gl\<lparr>calls := calls demo_gl @
          [ActiveTexture (GLNumber 33985), BindTexture TEXTURE_2D 5,
           Uniform1i (Location 11) (Some 1)]\<rparr>)"
    using uniform_reflected [OF demo_lookup(2) _ demo_gl_fields(1), of 5] t
    by (simp add: parseType_types js_template_def js_nat_string_digit demo_gl_fields)
  from destructor_frame [of demo_program demo_gl "''uSampler''"
      "\<lparr> type = ''SAMPLER_2D'', position = Location 11,
         info = \<lparr> info_name = ''uSampler'', info_size = 1, info_type = 35678 \<rparr>,
         unit = Some 1 \<rparr>" 5 "''aUV''"
      "\<lparr> type = ''FLOAT_VEC2'', position = Index 1,
         info = \<lparr> info_name = ''aUV'', info_size = 1, info_type = 35664 \<rparr>,
         unit = None \<rparr>" 7 20 12]
  show ?thesis
    using demo_lookup(2) demo_lookup(7) t demo_gl_fields(1)
    by (elim conjE) (simp add: g before parseType_types demo_gl_fields)
qed

section \<open>Failures of construction\<close>

text \<open>
  C6, as amended. When a stage fails to compile, construction raises an \<open>Error\<close>
  whose message is a fixed text followed by the diagnostic log of the stage that failed,
  the fragment stage being compiled first; the message does not name the stage. The
  context has then received the calls that create and compile the shaders, and no call
  that creates, attaches to or links a program.
\<close>

theorem compile_failure:
  assumes "\<not> compile_status gl FRAGMENT_SHADER (fShaderSource ip)
         \<or> \<not> compile_status gl VERTEX_SHADER (vShaderSource ip)"
  shows "Program_constructor ip gl =
     (if \<not> compile_status gl FRAGMENT_SHADER (fShaderSource ip) then
        (Inl (Error (''An error occurred compiling the shaders: ''
                       @ shader_info_log gl FRAGMENT_SHADER (fShaderSource ip))),
         gl\<lparr> next_object := Suc (next_object gl),
             calls := calls gl @
               [CreateShader FRAGMENT_SHADER (next_object gl),
                ShaderSource (next_object gl) (fShaderSource ip),
                CompileShader (next_object gl)] \<rparr>)
      else
        (Inl (Error (''An error occurred compiling the shaders: ''
                       @ shader_info_log gl VERTEX_SHADER (vShaderSource ip))),
         gl\<lparr> next_object := Suc (Suc (next_object gl)),
             calls := calls gl @
               [CreateShader FRAGMENT_SHADER (next_object gl),
                ShaderSource (next_object gl) (fShaderSource ip),
                CompileShader (next_object gl),
                CreateShader VERTEX_SHADER (Suc (next_object gl)),
                ShaderSource (Suc (next_object gl)) (vShaderSource ip),
                CompileShader (Suc (next_object gl))] \<rparr>))"
proof (cases "compile_status gl FRAGMENT_SHADER (fShaderSource ip)")
  case True
  with assms have "\<not> compile_status gl VERTEX_SHADER (vShaderSource ip)" by simp
  with True show ?thesis
    by (simp add: Program_constructor_def initProgram_compile_vertex)
next
  case False
  then show ?thesis
    by (simp add: Program_constructor_def initProgram_compile_fragment)
qed

text \<open>A fragment shader that does not compile, in the example's context.\<close>

theorem compile_failure_witness:
  "\<not> compile_status (webgl demo_link) FRAGMENT_SHADER
        (fShaderSource \<lparr> fShaderSource = ''#error'', vShaderSource = ''void main() {}'' \<rparr>)
   \<and> Program_constructor \<lparr> fShaderSource = ''#error'', vShaderSource = ''void main() {}'' \<rparr>
        (webgl demo_link) =
       (Inl (Error ''An error occurred compiling the shaders: ERROR: 0:1: unexpected directive''),
        (webgl demo_link)\<lparr> next_object := 2,
           calls := [CreateShader FRAGMENT_SHADER 1, ShaderSource 1 ''#error'',
                     CompileShader 1] \<rparr>)"
proof -
  have f: "\<not> compile_status (webgl demo_link) FRAGMENT_SHADER
        (fShaderSource \<lparr> fShaderSource = ''#error'', vShaderSource = ''void main() {}'' \<rparr>)"
    by (simp add: webgl_fields)
  from compile_failure [OF disjI1 [OF f]] f
  show ?thesis by (simp add: webgl_fields numeral_2_eq_2)
qed

text \<open>
  C6, as stated, fails: the error raised for a fragment stage that does not compile and
  the error raised for a vertex stage that does not compile are the same value, so the
  error does not carry the stage.
\<close>

theorem compile_error_stage_counterexample:
  "fst (Program_constructor \<lparr> fShaderSource = ''#error'', vShaderSource = ''void main() {}'' \<rparr>
         (webgl demo_link))
     = Inl (Error ''An error occurred compiling the shaders: ERROR: 0:1: unexpected directive'')
   \<and> fst (Program_constructor \<lparr> fShaderSource = ''void main() {}'', vShaderSource = ''#error'' \<rparr>
         (webgl demo_link))
     = Inl (Error ''An error occurred compiling the shaders: ERROR: 0:1: unexpected directive'')"
  by (simp add: Program_constructor_def initProgram_compile_fragment
      initProgram_compile_vertex webgl_fields)

lemma getVariableType_Inl:
  "getVariableType gl v = Inl e \<Longrightarrow> e = Error ''get type failed ' + value''"
  by (auto simp: getVariableType_def split: option.splits)

lemma reflect_attributes_unsupported:
  "a \<in> set as \<Longrightarrow> getVariableType gl (info_type a) = Inl e
     \<Longrightarrow> reflect_attributes gl l as t = Inl (Error ''get type failed ' + value'')"
proof (induction as arbitrary: t)
  case Nil
  then show ?case by simp
next
  case (Cons x as)
  show ?case
  proof (cases "getVariableType gl (info_type x)")
    case (Inl e')
    with getVariableType_Inl [OF Inl] show ?thesis by simp
  next
    case (Inr ty)
    with Cons.prems have "a \<in> set as" by auto
    from Cons.IH [OF this Cons.prems(2)] Inr show ?thesis by (simp add: Let_def)
  qed
qed

lemma reflect_uniforms_unsupported:
  "u \<in> set us \<Longrightarrow> getVariableType gl (info_type u) = Inl e
     \<Longrightarrow> reflect_uniforms gl l us (tc, t) = Inl (Error ''get type failed ' + value'')"
proof (induction us arbitrary: tc t)
  case Nil
  then show ?case by simp
next
  case (Cons x us)
  show ?case
  proof (cases "getVariableType gl (info_type x)")
    case (Inl e')
    with getVariableType_Inl [OF Inl] show ?thesis by simp
  next
    case (Inr ty)
    with Cons.prems have "u \<in> set us" by auto
    from Cons.IH [OF this Cons.prems(2)] Inr show ?thesis
      by (simp add: Let_def split: prod.split)
  qed
qed

lemma reflect_attributes_Inl:
  "reflect_attributes gl l as t = Inl e \<Longrightarrow> e = Error ''get type failed ' + value''"
proof (induction as arbitrary: t)
  case Nil
  then show ?case by simp
next
  case (Cons x as)
  show ?case
  proof (cases "getVariableType gl (info_type x)")
    case (Inl e')
    with Cons.prems getVariableType_Inl [OF Inl] show ?thesis by simp
  next
    case (Inr ty)
    with Cons.prems show ?thesis by (auto simp: Let_def dest: Cons.IH)
  qed
qed

text \<open>
  Every reported variable of an unsupported type is fatal: when the stages compile and
  link, one attribute or uniform whose type is none of the seventeen makes the
  constructor raise, whatever the other variables are.
\<close>

lemma unsupported_type_fatal:
  assumes c: "compile_status gl FRAGMENT_SHADER (fShaderSource ip)"
      "compile_status gl VERTEX_SHADER (vShaderSource ip)"
    and l: "link_status (linker gl (vShaderSource ip) (fShaderSource ip))"
    and x: "x \<in> set (active_attributes (linker gl (vShaderSource ip) (fShaderSource ip)))
          \<union> set (active_uniforms (linker gl (vShaderSource ip) (fShaderSource ip)))"
    and bad: "getVariableType gl (info_type x) = Inl e"
  shows "fst (Program_constructor ip gl) = Inl (Error ''get type failed ' + value'')"
proof -
  let ?l = "linker gl (vShaderSource ip) (fShaderSource ip)"
  note r = initProgram_reflected [OF c l, of 0]
  show ?thesis
  proof (cases "x \<in> set (active_attributes ?l)")
    case True
    from reflect_attributes_unsupported [OF True bad] r show ?thesis
      by (simp add: Program_constructor_def)
  next
    case False
    with x have "x \<in> set (active_uniforms ?l)" by simp
    note u = reflect_uniforms_unsupported [OF this bad, of ?l 0 empty_table]
    show ?thesis
    proof (cases "reflect_attributes gl ?l (active_attributes ?l) empty_table")
      case (Inl e')
      with reflect_attributes_Inl [OF Inl] r show ?thesis
        by (simp add: Program_constructor_def)
    next
      case (Inr attrs)
      with u r show ?thesis by (simp add: Program_constructor_def)
    qed
  qed
qed

text \<open>
  C7 at a failing input. An attribute of type 35685 and one of type 35679, neither among
  the seventeen: construction raises, and the message is the same fixed text both
  times, with the words \<open>' + value\<close> in it and no token.
\<close>

theorem unsupported_type_message:
  "fst (Program_constructor demo_sources (webgl (unsupported_link 35685)))
     = Inl (Error ''get type failed ' + value'')
   \<and> fst (Program_constructor demo_sources (webgl (unsupported_link 35679)))
     = Inl (Error ''get type failed ' + value'')"
proof -
  have "fst (Program_constructor demo_sources (webgl (unsupported_link v)))
          = Inl (Error ''get type failed ' + value'')"
    if "getVariableType (webgl (unsupported_link v)) v = Inl e" for v e
  proof (rule unsupported_type_fatal [where x = "\<lparr> info_name = ''aShear'', info_size = 1, info_type = v \<rparr>" and e = e])
    show "compile_status (webgl (unsupported_link v)) FRAGMENT_SHADER (fShaderSource demo_sources)"
      by (simp add: webgl_fields demo_sources_fields)
    show "compile_status (webgl (unsupported_link v)) VERTEX_SHADER (vShaderSource demo_sources)"
      by (simp add: webgl_fields demo_sources_fields)
    show "link_status (linker (webgl (unsupported_link v)) (vShaderSource demo_sources)
            (fShaderSource demo_sources))"
      by (simp add: webgl_fields unsupported_link_def)
    show "\<lparr> info_name = ''aShear'', info_size = 1, info_type = v \<rparr>
        \<in> set (active_attributes (linker (webgl (unsupported_link v))
                  (vShaderSource demo_sources) (fShaderSource demo_sources)))
          \<union> set (active_uniforms (linker (webgl (unsupported_link v))
                  (vShaderSource demo_sources) (fShaderSource demo_sources)))"
      by (simp add: webgl_fields unsupported_link_def)
    show "getVariableType (webgl (unsupported_link v))
            (info_type \<lparr> info_name = ''aShear'', info_size = 1, info_type = v \<rparr>) = Inl e"
      using that by simp
  qed
  from this [OF webgl_getVariableType(7)] this [OF webgl_getVariableType(8)]
  show ?thesis by simp
qed

section \<open>The key of a uniform\<close>

lemma inherited_keys_plain: "list_all (\<lambda>k. js_indexOf k ''[0]'' = - 1) inherited_keys"
  by (simp add: inherited_keys_def object_prototype_keys_def js_indexOf_def)

lemma indexed_not_inherited:
  "js_indexOf k ''[0]'' \<noteq> - 1 \<Longrightarrow> k \<notin> set inherited_keys"
  using inherited_keys_plain by (auto simp: list_all_iff)

lemma js_startsWith_append:
  "js_startsWith (x # xs @ ''[0]'') ''[0]'' \<Longrightarrow> js_startsWith (x # xs) ''[0]''"
proof (cases xs)
  case Nil
  assume "js_startsWith (x # xs @ ''[0]'') ''[0]''"
  with Nil show ?thesis by simp
next
  case (Cons y ys)
  assume a: "js_startsWith (x # xs @ ''[0]'') ''[0]''"
  show ?thesis
  proof (cases ys)
    case Nil
    with Cons a show ?thesis by simp
  next
    case (Cons z zs)
    with \<open>xs = y # ys\<close> a show ?thesis by simp
  qed
qed

text \<open>A name that ends in \<open>[0]\<close> and holds no other \<open>[0]\<close> loses exactly that suffix.\<close>

lemma js_replace_suffix:
  "js_indexOf_from i base ''[0]'' = - 1 \<Longrightarrow> js_replace (base @ ''[0]'') ''[0]'' [] = base"
proof (induction base arbitrary: i)
  case Nil
  then show ?case by simp
next
  case (Cons x xs)
  have no: "\<not> js_startsWith (x # xs) ''[0]''"
  proof
    assume "js_startsWith (x # xs) ''[0]''"
    with Cons.prems have "int i = - 1" by simp
    then show False by simp
  qed
  from no have "js_indexOf_from i (x # xs) ''[0]'' = js_indexOf_from (Suc i) xs ''[0]''"
    by (simp only: js_indexOf_from.simps if_False)
  with Cons.prems have "js_indexOf_from (Suc i) xs ''[0]'' = - 1" by (simp only:)
  then have ih: "js_replace (xs @ ''[0]'') ''[0]'' [] = xs" by (rule Cons.IH)
  from no js_startsWith_append [of x xs] have "\<not> js_startsWith (x # xs @ ''[0]'') ''[0]''"
    by blast
  then have "js_replace ((x # xs) @ ''[0]'') ''[0]'' [] = x # js_replace (xs @ ''[0]'') ''[0]'' []"
    by (simp only: js_replace.simps append_Cons if_False)
  with ih show ?case by (simp only:)
qed

lemma uniform_key_indexed:
  "js_indexOf name ''[0]'' \<noteq> - 1 \<Longrightarrow> uniform_key name = js_replace name ''[0]'' []"
  by (simp add: uniform_key_def)

text \<open>
  C4, as amended. When the keys of the reported uniforms are pairwise distinct, a uniform
  whose reported name holds \<open>[0]\<close> is stored under that name with its first \<open>[0]\<close>
  removed, so that key resolves to its binding; for a name \<open>foo[0]\<close> with no other
  \<open>[0]\<close> the key is \<open>foo\<close>. The reported name itself, unless it is the key of some
  reported uniform, finds no entry, and \<open>uniform\<close> on it does nothing.
\<close>

theorem uniform_key_storage:
  assumes "fst (Program_constructor ip gl) = Inr p"
    and "distinct (map (\<lambda>w. uniform_key (info_name w)) (reported_uniforms ip gl))"
    and "u \<in> set (reported_uniforms ip gl)"
    and "js_indexOf (info_name u) ''[0]'' \<noteq> - 1"
  shows "(\<exists>b. js_get (uniforms p) (js_replace (info_name u) ''[0]'' []) = JBinding b
            \<and> info b = u \<and> getVariableType gl (info_type u) = Inr (type b))
       \<and> (\<forall>base. info_name u = base @ ''[0]'' \<and> js_indexOf base ''[0]'' = - 1
             \<longrightarrow> js_replace (info_name u) ''[0]'' [] = base)
       \<and> (info_name u \<notin> set (map (\<lambda>w. uniform_key (info_name w)) (reported_uniforms ip gl))
             \<longrightarrow> js_get (uniforms p) (info_name u) = JUndefined
               \<and> uniform p (info_name u) v gl' = (Inr (), gl'))"
proof -
  note run = Program_constructor_uniforms [OF assms(1)]
  from reflect_uniforms_stored [OF run empty_table_own assms(2,3)]
  have stored: "\<exists>b. js_get (uniforms p) (js_replace (info_name u) ''[0]'' []) = JBinding b
            \<and> info b = u \<and> getVariableType gl (info_type u) = Inr (type b)"
    unfolding uniform_key_indexed [OF assms(4)] by blast
  have suffix: "js_replace (info_name u) ''[0]'' [] = base"
    if "info_name u = base @ ''[0]''" and "js_indexOf base ''[0]'' = - 1" for base
    using that js_replace_suffix [of 0 base] by (simp add: js_indexOf_def)
  have absent: "js_get (uniforms p) (info_name u) = JUndefined
               \<and> uniform p (info_name u) v gl' = (Inr (), gl')"
    if "info_name u \<notin> set (map (\<lambda>w. uniform_key (info_name w)) (reported_uniforms ip gl))"
  proof -
    from reflect_uniforms_own_other [OF run that]
    have own: "own (uniforms p) (info_name u) = None" by simp
    note plain = indexed_not_inherited [OF assms(4)]
    from js_get_absent [OF own plain] uniform_absent [OF own plain]
    show ?thesis by simp
  qed
  from stored suffix absent show ?thesis by blast
qed

lemma nested_reflect_uniforms:
  "reflect_uniforms (webgl l) nested_link (active_uniforms nested_link) (0, empty_table) =
     Inr (0, \<lparr> own = [''a.b[0]'' \<mapsto>
                  \<lparr> type = ''FLOAT'', position = Location 3,
                    info = \<lparr> info_name = ''a[0].b[0]'', info_size = 2, info_type = 5126 \<rparr>,
                    unit = None \<rparr>],
               proto = None \<rparr>)"
  by (simp add: nested_link_def webgl_getVariableType
      allocate_unit_def parseType_types uniform_key_demo js_set_def empty_table_def)

lemma nested_constructed:
  "fst (Program_constructor demo_sources (webgl nested_link)) =
     Inr \<lparr> glProgram = 3,
           uniforms = \<lparr> own = [''a.b[0]'' \<mapsto>
                  \<lparr> type = ''FLOAT'', position = Location 3,
                    info = \<lparr> info_name = ''a[0].b[0]'', info_size = 2, info_type = 5126 \<rparr>,
                    unit = None \<rparr>],
               proto = None \<rparr>,
           attributes = empty_table, textureCount = 0,
           this_fShaderSource = ''void main() {}'', this_vShaderSource = ''void main() {}'' \<rparr>"
proof -
  have c: "compile_status (webgl nested_link) FRAGMENT_SHADER ''void main() {}''"
    "compile_status (webgl nested_link) VERTEX_SHADER ''void main() {}''"
    by (simp_all add: webgl_fields)
  have l: "link_status (linker (webgl nested_link) ''void main() {}'' ''void main() {}'')"
    by (simp add: webgl_fields nested_link_def)
  have a: "reflect_attributes (webgl nested_link) nested_link (active_attributes nested_link)
             empty_table = Inr empty_table"
    by (simp add: nested_link_def)
  show ?thesis
    unfolding Program_constructor_def demo_sources_fields
    using initProgram_reflected [OF c l, of 0]
    by (simp add: webgl_fields nested_reflect_uniforms a numeral_3_eq_3)
qed

text \<open>
  C4, as stated, fails. The one uniform of this program is reported as \<open>a[0].b[0]\<close>,
  which carries the suffix; the name with the suffix stripped, \<open>a[0].b\<close>, finds no
  entry and setting it does nothing; the binding is stored under \<open>a.b[0]\<close>.
\<close>

theorem suffix_counterexample:
  "fst (Program_constructor demo_sources (webgl nested_link)) = Inr nested_program
   \<and> map info_name (reported_uniforms demo_sources (webgl nested_link)) = [''a[0].b[0]'']
   \<and> js_get (uniforms nested_program) ''a[0].b'' = JUndefined
   \<and> uniform nested_program ''a[0].b'' 5 (webgl nested_link) = (Inr (), webgl nested_link)
   \<and> js_get (uniforms nested_program) ''a.b[0]'' =
       JBinding \<lparr> type = ''FLOAT'', position = Location 3,
                  info = \<lparr> info_name = ''a[0].b[0]'', info_size = 2, info_type = 5126 \<rparr>,
                  unit = None \<rparr>"
proof -
  have p: "fst (Program_constructor demo_sources (webgl nested_link)) = Inr nested_program"
    by (simp add: nested_program_def nested_constructed)
  have u: "uniforms nested_program =
      \<lparr> own = [''a.b[0]'' \<mapsto>
                  \<lparr> type = ''FLOAT'', position = Location 3,
                    info = \<lparr> info_name = ''a[0].b[0]'', info_size = 2, info_type = 5126 \<rparr>,
                    unit = None \<rparr>],
               proto = None \<rparr>"
    by (simp add: nested_program_def nested_constructed)
  have g: "js_get (uniforms nested_program) ''a[0].b'' = JUndefined"
    by (simp add: u js_get_def object_prototype_keys_def)
  show ?thesis
    using p g
    by (simp add: uniform_def reported_uniforms_def webgl_fields nested_link_def)
       (simp add: u js_get_def)
qed

text \<open>
  The array uniform of the example, reported as \<open>uWeights[0]\<close>: found under
  \<open>uWeights\<close>, not under the reported name.
\<close>

theorem uniform_key_storage_witness:
  "fst (Program_constructor demo_sources (webgl demo_link)) = Inr demo_program
   \<and> distinct (map (\<lambda>w. uniform_key (info_name w))
        (reported_uniforms demo_sources (webgl demo_link)))
   \<and> \<lparr> info_name = ''uWeights[0]'', info_size = 4, info_type = 5126 \<rparr>
        \<in> set (reported_uniforms demo_sources (webgl demo_link))
   \<and> js_indexOf ''uWeights[0]'' ''[0]'' = 8
   \<and> js_replace ''uWeights[0]'' ''[0]'' [] = ''uWeights''
   \<and> js_get (uniforms demo_program) ''uWeights'' =
       JBinding \<lparr> type = ''FLOAT'', position = Location 12,
                  info = \<lparr> info_name = ''uWeights[0]'', info_size = 4, info_type = 5126 \<rparr>,
                  unit = None \<rparr>
   \<and> js_get (uniforms demo_program) ''uWeights[0]'' = JUndefined
   \<and> uniform demo_program ''uWeights[0]'' 5 demo_gl = (Inr (), demo_gl)"
proof -
  let ?u = "\<lparr> info_name = ''uWeights[0]'', info_size = 4, info_type = 5126 \<rparr>"
  have keys: "distinct (map (\<lambda>w. uniform_key (info_name w))
        (reported_uniforms demo_sources (webgl demo_link)))"
    by (simp add: demo_reported demo_distinct)
  have u: "?u \<in> set (reported_uniforms demo_sources (webgl demo_link))"
    unfolding demo_reported by (simp add: demo_link_def)
  have i: "js_indexOf ''uWeights[0]'' ''[0]'' = 8" by (simp add: js_indexOf_def)
  then have arr: "js_indexOf (info_name ?u) ''[0]'' \<noteq> - 1" by simp
  have r: "js_replace ''uWeights[0]'' ''[0]'' [] = ''uWeights''" by simp
  have fresh: "info_name ?u \<notin> set (map (\<lambda>w. uniform_key (info_name w))
        (reported_uniforms demo_sources (webgl demo_link)))"
    by (simp add: demo_reported demo_keys)
  from uniform_key_storage [OF demo_ok keys u arr, of 5 demo_gl] fresh
  have "js_get (uniforms demo_program) ''uWeights[0]'' = JUndefined
      \<and> uniform demo_program ''uWeights[0]'' 5 demo_gl = (Inr (), demo_gl)"
    by simp
  with demo_ok keys u i r demo_lookup(3) show ?thesis by simp
qed

end
